theory Spec2Isabelle
  imports Main
begin

section \<open>JavaScript values\<close>

text \<open>
  The four parsers (\<^verbatim>\<open>SysmonLogParser\<close>, \<^verbatim>\<open>ElkLogParser\<close>, \<^verbatim>\<open>DefenderLogParser\<close>,
  \<^verbatim>\<open>WazuhLogParser\<close>) work on the values that \<^verbatim>\<open>JSON.parse\<close> returns and on
  \<^verbatim>\<open>undefined\<close>, the value of a missing property.

  \<^item> A number is a mathematical integer: event codes, process ids, ports and rule
    levels are integers in all four log sources. Fractions and the rounding of
    doubles are outside the model.
  \<^item> A string is a list of code units below 256.
  \<^item> An object is the association list of its own properties, in insertion order;
    a property is looked up with \<open>map_of\<close>.
\<close>

datatype jsval =
    Undefined
  | Null
  | Bool bool
  | Num int
  | Str string
  | Arr "jsval list"
  | Obj "(string \<times> jsval) list"

type_synonym object = "(string \<times> jsval) list"

text \<open>
  The only exception that reaches the parsers' own control flow is \<^verbatim>\<open>TypeError\<close>
  (a property read on \<^verbatim>\<open>null\<close>/\<^verbatim>\<open>undefined\<close>, a call of something that is not a
  function, a conversion to a primitive that fails). The \<^verbatim>\<open>SyntaxError\<close> of
  \<^verbatim>\<open>JSON.parse\<close> is the value \<open>None\<close> of \<open>jsonParse\<close> below.
\<close>

datatype error = TypeError

text \<open>
  What the JavaScript runtime supplies and the repository does not define is a
  parameter of the model:
  \<^item> \<open>jsonParse\<close> is \<^verbatim>\<open>JSON.parse\<close> (\<open>None\<close> when it throws);
  \<^item> \<open>clock rt n\<close> is the result of the \<open>n\<close>-th evaluation of
    \<^verbatim>\<open>new Date().toISOString()\<close> during one run of \<^verbatim>\<open>parseLogs\<close>;
  \<^item> \<open>strToNumber\<close> is the conversion of a string to a number that \<^verbatim>\<open>>=\<close> applies
    to a string operand (\<open>None\<close> is \<^verbatim>\<open>NaN\<close>).
\<close>

record runtime =
  jsonParse :: "string \<Rightarrow> jsval option"
  clock :: "nat \<Rightarrow> string"
  strToNumber :: "string \<Rightarrow> int option"

fun bindE :: "error + 'a \<Rightarrow> ('a \<Rightarrow> error + 'b) \<Rightarrow> error + 'b" where
  "bindE (Inl e) f = Inl e"
| "bindE (Inr x) f = f x"

text \<open>Truthiness, as \<^verbatim>\<open>if (v)\<close>, \<^verbatim>\<open>!v\<close>, \<^verbatim>\<open>v ? a : b\<close>, \<^verbatim>\<open>||\<close> and \<^verbatim>\<open>&&\<close> test it.\<close>

fun truthy :: "jsval \<Rightarrow> bool" where
  "truthy Undefined = False"
| "truthy Null = False"
| "truthy (Bool b) = b"
| "truthy (Num n) = (n \<noteq> 0)"
| "truthy (Str s) = (s \<noteq> [])"
| "truthy (Arr xs) = True"
| "truthy (Obj kvs) = True"

text \<open>\<^verbatim>\<open>a || b\<close> for operands without effects.\<close>

definition jsOr :: "jsval \<Rightarrow> jsval \<Rightarrow> jsval" where
  "jsOr a b = (if truthy a then a else b)"

definition nullish :: "jsval \<Rightarrow> bool" where
  "nullish v = (v = Undefined \<or> v = Null)"

text \<open>
  \<open>field\<close> reads a property of an object. \<open>get v k\<close> is \<^verbatim>\<open>v?.k\<close>: \<^verbatim>\<open>undefined\<close> when
  \<open>v\<close> is \<^verbatim>\<open>null\<close> or \<^verbatim>\<open>undefined\<close>, when \<open>v\<close> is an object without the property, and
  when \<open>v\<close> is a string, number, boolean or array (none of the property names the
  parsers read exists on their prototypes). It is also \<^verbatim>\<open>v.k\<close> wherever \<open>v\<close> is
  known not to be \<^verbatim>\<open>null\<close>/\<^verbatim>\<open>undefined\<close>; \<open>member\<close> is \<^verbatim>\<open>v.k\<close> in general.
\<close>

definition field :: "object \<Rightarrow> string \<Rightarrow> jsval" where
  "field kvs k = (case map_of kvs k of Some v \<Rightarrow> v | None \<Rightarrow> Undefined)"

fun get :: "jsval \<Rightarrow> string \<Rightarrow> jsval" where
  "get (Obj kvs) k = field kvs k"
| "get v k = Undefined"

definition member :: "jsval \<Rightarrow> string \<Rightarrow> error + jsval" where
  "member v k = (if nullish v then Inl TypeError else Inr (get v k))"

text \<open>
  \<open>setProp\<close> is the assignment of one property, as \<^verbatim>\<open>{ ...conn, process: p }\<close>
  does after copying \<open>conn\<close>: an existing property keeps its place.
\<close>

fun setProp :: "object \<Rightarrow> string \<Rightarrow> jsval \<Rightarrow> object" where
  "setProp [] k v = [(k, v)]"
| "setProp (p # ps) k v = (if fst p = k then (k, v) # ps else p # setProp ps k v)"

subsection \<open>Strings\<close>

definition bs :: char where
  "bs = CHR 0x5C"

definition digitChar :: "nat \<Rightarrow> char" where
  "digitChar d = ''0123456789'' ! (d mod 10)"

fun showNat :: "nat \<Rightarrow> string" where
  "showNat n = (if n < 10 then [digitChar n] else showNat (n div 10) @ [digitChar n])"

declare showNat.simps [simp del]

text \<open>The decimal form of an integer (JavaScript prints integers below \<open>10^21\<close> this way).\<close>

definition showInt :: "int \<Rightarrow> string" where
  "showInt n = (if n < 0 then CHR ''-'' # showNat (nat (- n)) else showNat (nat n))"

fun joinWith :: "string \<Rightarrow> string list \<Rightarrow> string" where
  "joinWith sep [] = []"
| "joinWith sep [s] = s"
| "joinWith sep (s # t # ss) = s @ sep @ joinWith sep (t # ss)"

text \<open>
  Conversion to a string, as a template literal and \<^verbatim>\<open>Array.prototype.join\<close> do it.
  An array is its elements joined by a comma, \<^verbatim>\<open>null\<close> and \<^verbatim>\<open>undefined\<close> elements
  being empty. An object parsed from JSON prints as \<^verbatim>\<open>[object Object]\<close>, unless it
  has a property \<^verbatim>\<open>toString\<close> of its own: no JSON value is callable, and the
  conversion throws.
\<close>

fun toStr :: "jsval \<Rightarrow> error + string"
  and elemStrs :: "jsval list \<Rightarrow> error + string list" where
  "toStr Undefined = Inr ''undefined''"
| "toStr Null = Inr ''null''"
| "toStr (Bool b) = Inr (if b then ''true'' else ''false'')"
| "toStr (Num n) = Inr (showInt n)"
| "toStr (Str s) = Inr s"
| "toStr (Arr xs) = bindE (elemStrs xs) (\<lambda>ss. Inr (joinWith '','' ss))"
| "toStr (Obj kvs) =
     (if map_of kvs ''toString'' \<noteq> None then Inl TypeError else Inr ''[object Object]'')"
| "elemStrs [] = Inr []"
| "elemStrs (x # xs) =
     bindE (if nullish x then Inr [] else toStr x)
       (\<lambda>s. bindE (elemStrs xs) (\<lambda>ss. Inr (s # ss)))"

text \<open>
  A template literal: the list of its parts in order, a literal chunk being a \<open>Str\<close>.
\<close>

fun template :: "jsval list \<Rightarrow> error + string" where
  "template [] = Inr []"
| "template (v # vs) = bindE (toStr v) (\<lambda>s. bindE (template vs) (\<lambda>r. Inr (s @ r)))"

text \<open>\<^verbatim>\<open>s.split(c)\<close> for a separator of one character; the result is never empty.\<close>

fun splitOn :: "char \<Rightarrow> string \<Rightarrow> string list" where
  "splitOn c [] = [[]]"
| "splitOn c (x # xs) =
     (if x = c then [] # splitOn c xs
      else (case splitOn c xs of [] \<Rightarrow> [[x]] | p # ps \<Rightarrow> (x # p) # ps))"

text \<open>
  \<^verbatim>\<open>v.split(c)\<close> on a value: only a string has the method. \<^verbatim>\<open>.pop()\<close> on the
  result is \<open>last\<close>.
\<close>

definition jsSplit :: "jsval \<Rightarrow> char \<Rightarrow> error + string list" where
  "jsSplit v c = (case v of Str s \<Rightarrow> Inr (splitOn c s) | _ \<Rightarrow> Inl TypeError)"

fun startsWith :: "string \<Rightarrow> string \<Rightarrow> bool" where
  "startsWith s [] = True"
| "startsWith [] (p # ps) = False"
| "startsWith (x # xs) (p # ps) = (x = p \<and> startsWith xs ps)"

fun contains :: "string \<Rightarrow> string \<Rightarrow> bool" where
  "contains [] sub = (sub = [])"
| "contains (x # xs) sub = (startsWith (x # xs) sub \<or> contains xs sub)"

text \<open>
  \<^verbatim>\<open>v.includes(s)\<close>: a substring test on a string, a membership test on an array,
  a \<^verbatim>\<open>TypeError\<close> on every other value.
\<close>

definition jsIncludes :: "jsval \<Rightarrow> string \<Rightarrow> error + bool" where
  "jsIncludes v sub =
     (case v of
        Str s \<Rightarrow> Inr (contains s sub)
      | Arr xs \<Rightarrow> Inr (List.member xs (Str sub))
      | _ \<Rightarrow> Inl TypeError)"

definition isWhiteSpace :: "char \<Rightarrow> bool" where
  "isWhiteSpace c =
     List.member [CHR 0x09, CHR 0x0A, CHR 0x0B, CHR 0x0C, CHR 0x0D, CHR 0x20, CHR 0xA0] c"

definition trim :: "string \<Rightarrow> string" where
  "trim s = rev (dropWhile isWhiteSpace (rev (dropWhile isWhiteSpace s)))"

definition digitVal :: "char \<Rightarrow> nat option" where
  "digitVal c =
     map_of [(CHR ''0'', 0), (CHR ''1'', 1), (CHR ''2'', 2), (CHR ''3'', 3), (CHR ''4'', 4),
             (CHR ''5'', 5), (CHR ''6'', 6), (CHR ''7'', 7), (CHR ''8'', 8), (CHR ''9'', 9)] c"

definition isDigit :: "char \<Rightarrow> bool" where
  "isDigit c = (digitVal c \<noteq> None)"

definition digitsVal :: "string \<Rightarrow> nat" where
  "digitsVal ds = foldl (\<lambda>acc c. 10 * acc + (case digitVal c of Some d \<Rightarrow> d | None \<Rightarrow> 0)) 0 ds"

text \<open>
  \<^verbatim>\<open>parseInt(str, 10)\<close>: leading white space is skipped, one sign is read, then the
  longest run of decimal digits; \<open>None\<close> is \<^verbatim>\<open>NaN\<close>.
\<close>

definition parseInt :: "string \<Rightarrow> int option" where
  "parseInt str =
     (let S = dropWhile isWhiteSpace str;
          neg = (S \<noteq> [] \<and> hd S = CHR ''-'');
          S' = (if S \<noteq> [] \<and> (hd S = CHR ''+'' \<or> hd S = CHR ''-'') then tl S else S);
          Z = takeWhile isDigit S'
      in if Z = [] then None
         else Some (if neg then - int (digitsVal Z) else int (digitsVal Z)))"

text \<open>
  Conversion to a number and \<^verbatim>\<open>v >= n\<close> for a number \<open>n\<close>: an array or object is
  converted through its string, and \<^verbatim>\<open>NaN >= n\<close> is false.
\<close>

definition toNumber :: "runtime \<Rightarrow> jsval \<Rightarrow> error + int option" where
  "toNumber rt v =
     (case v of
        Undefined \<Rightarrow> Inr None
      | Null \<Rightarrow> Inr (Some 0)
      | Bool b \<Rightarrow> Inr (Some (if b then 1 else 0))
      | Num n \<Rightarrow> Inr (Some n)
      | Str s \<Rightarrow> Inr (strToNumber rt s)
      | _ \<Rightarrow> bindE (toStr v) (\<lambda>s. Inr (strToNumber rt s)))"

definition geNum :: "runtime \<Rightarrow> jsval \<Rightarrow> int \<Rightarrow> error + bool" where
  "geNum rt v n =
     bindE (toNumber rt v) (\<lambda>x. Inr (case x of None \<Rightarrow> False | Some m \<Rightarrow> n \<le> m))"

section \<open>The IP classifier\<close>

text \<open>
  \<^verbatim>\<open>isInternalIP(ip)\<close>, the same text in all four classes. \<^verbatim>\<open>ip.split\<close> throws on
  a truthy value that is not a string.
\<close>

definition isInternalIP :: "jsval \<Rightarrow> error + bool" where
  "isInternalIP ip =
     (if \<not> truthy ip then Inr False
      else if ip = Str ''127.0.0.1'' \<or> ip = Str ''::1'' then Inr True
      else bindE (jsSplit ip CHR ''.'') (\<lambda>parts.
        if length parts = 4 then
          (let p1 = parseInt (parts ! 0); p2 = parseInt (parts ! 1)
           in if p1 = Some 10 then Inr True
              else if p1 = Some 172 \<and> (case p2 of None \<Rightarrow> False | Some b \<Rightarrow> 16 \<le> b \<and> b \<le> 31)
                then Inr True
              else if p1 = Some 192 \<and> p2 = Some 168 then Inr True
              else Inr False)
        else Inr False))"

section \<open>The host-IDS severity mapping\<close>

text \<open>\<^verbatim>\<open>WazuhLogParser.mapWazuhLevel(level)\<close>.\<close>

definition mapWazuhLevel :: "runtime \<Rightarrow> jsval \<Rightarrow> error + jsval" where
  "mapWazuhLevel rt level =
     (if \<not> truthy level then Inr (Str ''low'')
      else bindE (geNum rt level 12) (\<lambda>ge12.
        if ge12 then Inr (Str ''high'')
        else bindE (geNum rt level 7) (\<lambda>ge7.
          if ge7 then Inr (Str ''medium'')
          else bindE (geNum rt level 3) (\<lambda>ge3.
            if ge3 then Inr (Str ''low'')
            else Inr (Str ''informational'')))))"

section \<open>The parsers' state and the visualization bundle\<close>

text \<open>
  The object that \<^verbatim>\<open>generateVisualizationData\<close> builds and \<^verbatim>\<open>parseLogs\<close> returns:
  \<^verbatim>\<open>{ aptPatterns: { threatIndicators: [], attackChain: [] },
    fileMap: { fileActivities: [] },
    networkMap: { connections: [], dnsQueries: [] } }\<close>.
  A threat indicator is a string or, for a native alert, an object.
\<close>

record aptPatterns =
  threatIndicators :: "jsval list"
  attackChain :: "string list"

record fileMap =
  fileActivities :: "object list"

record networkMap =
  connections :: "object list"
  dnsQueries :: "object list"

record visualization =
  aptPatterns :: aptPatterns
  fileMap :: fileMap
  networkMap :: networkMap

definition emptyVisualization :: visualization where
  "emptyVisualization =
     \<lparr>aptPatterns = \<lparr>threatIndicators = [], attackChain = []\<rparr>,
      fileMap = \<lparr>fileMap.fileActivities = []\<rparr>,
      networkMap = \<lparr>connections = [], networkMap.dnsQueries = []\<rparr>\<rparr>"

definition pushThreatIndicator :: "jsval \<Rightarrow> visualization \<Rightarrow> visualization" where
  "pushThreatIndicator x v =
     v\<lparr>aptPatterns := (aptPatterns v)\<lparr>threatIndicators := threatIndicators (aptPatterns v) @ [x]\<rparr>\<rparr>"

definition pushAttackChain :: "string \<Rightarrow> visualization \<Rightarrow> visualization" where
  "pushAttackChain x v =
     v\<lparr>aptPatterns := (aptPatterns v)\<lparr>attackChain := attackChain (aptPatterns v) @ [x]\<rparr>\<rparr>"

definition pushFileActivity :: "object \<Rightarrow> visualization \<Rightarrow> visualization" where
  "pushFileActivity x v =
     v\<lparr>fileMap := (fileMap v)\<lparr>fileMap.fileActivities := fileMap.fileActivities (fileMap v) @ [x]\<rparr>\<rparr>"

definition pushConnection :: "object \<Rightarrow> visualization \<Rightarrow> visualization" where
  "pushConnection x v =
     v\<lparr>networkMap := (networkMap v)\<lparr>connections := connections (networkMap v) @ [x]\<rparr>\<rparr>"

definition setDnsQueries :: "object list \<Rightarrow> visualization \<Rightarrow> visualization" where
  "setDnsQueries xs v = v\<lparr>networkMap := (networkMap v)\<lparr>networkMap.dnsQueries := xs\<rparr>\<rparr>"

text \<open>
  \<^verbatim>\<open>this.parsedData\<close>: every record pushed into it is an object literal. A run of
  \<^verbatim>\<open>parseLogs\<close> also counts how often it has read the clock.
\<close>

record parsedData =
  processes :: "object list"
  networkConnections :: "object list"
  fileActivities :: "object list"
  dllActivities :: "object list"
  registryChanges :: "object list"
  userActivities :: "object list"
  threats :: "object list"
  dnsQueries :: "object list"

record run = parsedData +
  clockReads :: nat

text \<open>The assignment at the start of every \<^verbatim>\<open>parseLogs\<close>.\<close>

definition clearParsedData :: run where
  "clearParsedData =
     \<lparr>processes = [], networkConnections = [], fileActivities = [], dllActivities = [],
      registryChanges = [], userActivities = [], threats = [], dnsQueries = [],
      clockReads = 0\<rparr>"

text \<open>\<^verbatim>\<open>v || new Date().toISOString()\<close>: the clock is read only when \<open>v\<close> is falsy.\<close>

definition orNow :: "runtime \<Rightarrow> jsval \<Rightarrow> run \<Rightarrow> jsval \<times> run" where
  "orNow rt v st =
     (if truthy v then (v, st)
      else (Str (clock rt (clockReads st)), st\<lparr>clockReads := Suc (clockReads st)\<rparr>))"

text \<open>
  \<^verbatim>\<open>forEach\<close> with a callback that changes the parser's state and may throw: the
  result is the state reached and the exception, if any, that ended the loop.
  \<open>thenDo\<close> is the sequence of two such steps.
\<close>

fun forEach :: "('a \<Rightarrow> 's \<Rightarrow> 's \<times> error option) \<Rightarrow> 'a list \<Rightarrow> 's \<Rightarrow> 's \<times> error option" where
  "forEach f [] s = (s, None)"
| "forEach f (x # xs) s =
     (case f x s of (s', None) \<Rightarrow> forEach f xs s' | (s', Some e) \<Rightarrow> (s', Some e))"

definition thenDo :: "'s \<times> error option \<Rightarrow> ('s \<Rightarrow> 's \<times> error option) \<Rightarrow> 's \<times> error option" where
  "thenDo r f = (case r of (s, None) \<Rightarrow> f s | (s, Some e) \<Rightarrow> (s, Some e))"

text \<open>
  \<^verbatim>\<open>forEach\<close> in \<^verbatim>\<open>generateVisualizationData\<close>, where nothing catches: an exception
  ends the call and the bundle under construction is lost.
\<close>

fun forEachE :: "('a \<Rightarrow> 's \<Rightarrow> error + 's) \<Rightarrow> 'a list \<Rightarrow> 's \<Rightarrow> error + 's" where
  "forEachE f [] s = Inr s"
| "forEachE f (x # xs) s = bindE (f x s) (forEachE f xs)"

text \<open>
  The last statement of every \<^verbatim>\<open>generateVisualizationData\<close>:
  \<^verbatim>\<open>this.parsedData.dnsQueries.map(dns => ({ ...dns, process: dns.processName }))\<close>.
\<close>

definition dnsWithProcess :: "object \<Rightarrow> object" where
  "dnsWithProcess dns = setProp dns ''process'' (field dns ''processName'')"

section \<open>The process-monitor adapter (SysmonLogParser)\<close>

text \<open>\<^verbatim>\<open>event.Image ? event.Image.split('\\').pop() : 'N/A'\<close>, in all four handlers.\<close>

definition sysmonProcessName :: "jsval \<Rightarrow> error + jsval" where
  "sysmonProcessName event =
     (if truthy (get event ''Image'')
      then bindE (jsSplit (get event ''Image'') bs) (\<lambda>parts. Inr (Str (last parts)))
      else Inr (Str ''N/A''))"

definition processProcessCreation :: "runtime \<Rightarrow> jsval \<Rightarrow> run \<Rightarrow> run \<times> error option" where
  "processProcessCreation rt event st =
     (case sysmonProcessName event of
        Inl e \<Rightarrow> (st, Some e)
      | Inr processName \<Rightarrow>
          (let (timestamp, st1) = orNow rt (get event ''UtcTime'') st
           in (st1\<lparr>processes := processes st1 @
                 [[(''timestamp'', timestamp),
                   (''processId'', get event ''ProcessId''),
                   (''parentProcessId'', get event ''ParentProcessId''),
                   (''image'', get event ''Image''),
                   (''commandLine'', get event ''CommandLine''),
                   (''user'', get event ''User''),
                   (''processName'', processName)]]\<rparr>, None)))"

definition processNetworkConnection :: "runtime \<Rightarrow> jsval \<Rightarrow> run \<Rightarrow> run \<times> error option" where
  "processNetworkConnection rt event st =
     (case sysmonProcessName event of
        Inl e \<Rightarrow> (st, Some e)
      | Inr processName \<Rightarrow>
          (let (timestamp, st1) = orNow rt (get event ''UtcTime'') st
           in (st1\<lparr>networkConnections := networkConnections st1 @
                 [[(''timestamp'', timestamp),
                   (''sourceIp'', get event ''SourceIp''),
                   (''sourcePort'', get event ''SourcePort''),
                   (''destinationIp'', get event ''DestinationIp''),
                   (''destinationPort'', get event ''DestinationPort''),
                   (''protocol'', get event ''Protocol''),
                   (''processId'', get event ''ProcessId''),
                   (''image'', get event ''Image''),
                   (''user'', get event ''User''),
                   (''processName'', processName)]]\<rparr>, None)))"

definition fileAction :: "jsval \<Rightarrow> error + jsval" where
  "fileAction eventID =
     (if eventID = Num 11 then Inr (Str ''File Created'')
      else if eventID = Num 23 then Inr (Str ''File Deleted'')
      else if eventID = Num 15 then Inr (Str ''File Stream Created'')
      else bindE (template [Str ''EventID '', eventID]) (\<lambda>s. Inr (Str s)))"

definition processFileActivity :: "runtime \<Rightarrow> jsval \<Rightarrow> run \<Rightarrow> run \<times> error option" where
  "processFileActivity rt event st =
     (case bindE (fileAction (get event ''EventID'')) (\<lambda>action.
             bindE (sysmonProcessName event) (\<lambda>processName. Inr (action, processName))) of
        Inl e \<Rightarrow> (st, Some e)
      | Inr (action, processName) \<Rightarrow>
          (let (timestamp, st1) = orNow rt (get event ''UtcTime'') st
           in (st1\<lparr>fileActivities := fileActivities st1 @
                 [[(''timestamp'', timestamp),
                   (''filePath'', get event ''TargetFilename''),
                   (''action'', action),
                   (''activityType'', action),
                   (''processId'', get event ''ProcessId''),
                   (''image'', get event ''Image''),
                   (''user'', get event ''User''),
                   (''processName'', processName)]]\<rparr>, None)))"

definition processDnsQuery :: "runtime \<Rightarrow> jsval \<Rightarrow> run \<Rightarrow> run \<times> error option" where
  "processDnsQuery rt event st =
     (case sysmonProcessName event of
        Inl e \<Rightarrow> (st, Some e)
      | Inr processName \<Rightarrow>
          (let (timestamp, st1) = orNow rt (get event ''UtcTime'') st
           in (st1\<lparr>dnsQueries := dnsQueries st1 @
                 [[(''timestamp'', timestamp),
                   (''queryName'', get event ''QueryName''),
                   (''queryResults'', get event ''QueryResults''),
                   (''processId'', get event ''ProcessId''),
                   (''image'', get event ''Image''),
                   (''user'', get event ''User''),
                   (''processName'', processName)]]\<rparr>, None)))"

text \<open>\<^verbatim>\<open>event.EventID\<close> throws when an element of the array is \<^verbatim>\<open>null\<close>.\<close>

definition processSysmonEvent :: "runtime \<Rightarrow> jsval \<Rightarrow> run \<Rightarrow> run \<times> error option" where
  "processSysmonEvent rt event st =
     (if nullish event then (st, Some TypeError)
      else if get event ''EventID'' = Num 1 then processProcessCreation rt event st
      else if get event ''EventID'' = Num 3 then processNetworkConnection rt event st
      else if get event ''EventID'' = Num 11 \<or> get event ''EventID'' = Num 23
              \<or> get event ''EventID'' = Num 15 then processFileActivity rt event st
      else if get event ''EventID'' = Num 22 then processDnsQuery rt event st
      else (st, None))"

text \<open>
  The \<^verbatim>\<open>try\<close> block holds the whole loop: an exception ends the file, keeps what
  was pushed before it and is logged.
\<close>

definition parseSysmonLogs :: "runtime \<Rightarrow> string \<Rightarrow> run \<Rightarrow> run" where
  "parseSysmonLogs rt content st =
     (case jsonParse rt content of
        None \<Rightarrow> st
      | Some (Arr events) \<Rightarrow> fst (forEach (processSysmonEvent rt) events st)
      | Some _ \<Rightarrow> st)"

definition sysmon_parseByFormat :: "runtime \<Rightarrow> string \<Rightarrow> string \<Rightarrow> run \<Rightarrow> run" where
  "sysmon_parseByFormat rt content format st =
     (if format = ''sysmon'' then parseSysmonLogs rt content st else st)"

text \<open>
  The pair of statements that every detection rule consists of:
  \<^verbatim>\<open>threatIndicators.push(`...`); attackChain.push(`${step++}. ...`)\<close>, given the parts
  of the first template and the parts of the second after \<^verbatim>\<open>${step++}\<close>.
\<close>

definition report ::
  "jsval list \<Rightarrow> jsval list \<Rightarrow> visualization \<times> nat \<Rightarrow> error + visualization \<times> nat" where
  "report indicatorParts entryParts = (\<lambda>(v, step).
     bindE (template indicatorParts) (\<lambda>indicator.
     bindE (template (Num (int step) # entryParts)) (\<lambda>entry.
     Inr (pushAttackChain entry (pushThreatIndicator (Str indicator) v), Suc step))))"

text \<open>The two loops of \<^verbatim>\<open>SysmonLogParser.generateVisualizationData\<close>, on the bundle and \<^verbatim>\<open>step\<close>.\<close>

definition sysmon_connection :: "object \<Rightarrow> visualization \<times> nat \<Rightarrow> error + visualization \<times> nat" where
  "sysmon_connection conn = (\<lambda>(v, step).
     (let processName = jsOr (field conn ''processName'') (Str ''N/A'')
      in bindE (isInternalIP (field conn ''destinationIp'')) (\<lambda>internal.
         bindE
           (if \<not> internal then
              report
                [Str ''Command and Control Connection: Outbound connection to C2 IP: '',
                 field conn ''destinationIp'', Str '':'', field conn ''destinationPort'',
                 Str '' (Process: '', processName, Str '')'']
                [Str ''. Command and Control (C2): Suspicious network connection to '',
                 field conn ''destinationIp'', Str '':'', field conn ''destinationPort'',
                 Str '' from '', processName]
                (v, step)
            else bindE (isInternalIP (field conn ''destinationIp'')) (\<lambda>internal'.
              if internal' \<and> field conn ''destinationPort'' = Num 445 then
                report
                [Str ''Lateral Movement - SMB: Internal SMB connection: '',
                 field conn ''sourceIp'', Str '' -> '', field conn ''destinationIp'',
                 Str '' (Process: '', processName, Str '')'']
                [Str ''. Lateral Movement: Internal SMB connection from '',
                 field conn ''sourceIp'', Str '' to '', field conn ''destinationIp'']
                (v, step)
              else Inr (v, step)))
           (\<lambda>(v', step').
              Inr (pushConnection (setProp conn ''process'' processName) v', step')))))"

definition sysmon_file :: "object \<Rightarrow> visualization \<times> nat \<Rightarrow> error + visualization \<times> nat" where
  "sysmon_file file = (\<lambda>(v, step).
     (let processName = jsOr (field file ''processName'') (Str ''N/A'')
      in bindE
           (if field file ''action'' = Str ''File Created'' then
              jsIncludes (field file ''filePath'') ''Temp''
            else Inr False) (\<lambda>staged.
         bindE
           (if staged then
              report
                [Str ''Exfiltration Staging: File created in temp for potential exfiltration: '',
                 field file ''filePath'', Str '' (Process: '', processName, Str '') (User: '',
                 field file ''user'', Str '')'']
                [Str ''. Exfiltration: Data staged for exfiltration via '', field file ''filePath'']
                (v, step)
            else if field file ''action'' = Str ''File Deleted'' then
              report
                [Str ''Evidence Tampering: File Deleted: '', field file ''filePath'',
                 Str '' (Process: '', processName, Str '') (User: '', field file ''user'',
                 Str '')'']
                [Str ''. Evidence Tampering: File '', field file ''filePath'', Str '' deleted'']
                (v, step)
            else Inr (v, step))
           (\<lambda>(v', step').
              Inr (pushFileActivity (setProp file ''process'' processName) v', step')))))"

definition sysmon_generateVisualizationData :: "'a parsedData_scheme \<Rightarrow> error + visualization" where
  "sysmon_generateVisualizationData pd =
     bindE (forEachE sysmon_connection (networkConnections pd) (emptyVisualization, 1)) (\<lambda>s1.
     bindE (forEachE sysmon_file (fileActivities pd) s1) (\<lambda>(v, step).
     Inr (setDnsQueries (map dnsWithProcess (dnsQueries pd)) v)))"

text \<open>
  \<^verbatim>\<open>parseLogs(files, format)\<close>: a file is the text that \<^verbatim>\<open>readFile\<close> resolves to; the
  state that the parser held before the call is the last argument. \<open>parseFiles\<close> is
  the assignment that clears \<^verbatim>\<open>parsedData\<close> and the loop over the files.
\<close>

definition sysmon_parseFiles :: "runtime \<Rightarrow> string list \<Rightarrow> string \<Rightarrow> run" where
  "sysmon_parseFiles rt files format =
     fold (\<lambda>content. sysmon_parseByFormat rt content format) files clearParsedData"

definition sysmon_parseLogs :: "runtime \<Rightarrow> string list \<Rightarrow> string \<Rightarrow> parsedData \<Rightarrow> error + visualization" where
  "sysmon_parseLogs rt files format before =
     sysmon_generateVisualizationData (sysmon_parseFiles rt files format)"

section \<open>The generic adapter (ElkLogParser)\<close>

text \<open>\<^verbatim>\<open>image.split('\\').pop().split('/').pop()\<close>.\<close>

definition elkProcessName :: "jsval \<Rightarrow> error + jsval" where
  "elkProcessName img =
     bindE (jsSplit img bs) (\<lambda>parts.
     bindE (jsSplit (Str (last parts)) CHR ''/'') (\<lambda>parts'. Inr (Str (last parts'))))"

text \<open>\<^verbatim>\<open>image ? image.split('\\').pop().split('/').pop() : 'N/A'\<close>.\<close>

definition elkProcessNameOrNA :: "jsval \<Rightarrow> error + jsval" where
  "elkProcessNameOrNA img = (if truthy img then elkProcessName img else Inr (Str ''N/A''))"

text \<open>
  \<^verbatim>\<open>processGenericEvent(event)\<close> is four checks in a row, each pushing at most one
  record; \<open>event\<close> is never \<^verbatim>\<open>null\<close> or \<^verbatim>\<open>undefined\<close> (see \<open>elkLog\<close>).
\<close>

definition genericProcess :: "jsval \<Rightarrow> jsval \<Rightarrow> run \<Rightarrow> run \<times> error option" where
  "genericProcess event timestamp st =
     (let processImage = jsOr (jsOr (get event ''Image'') (get (get event ''process'') ''executable''))
                              (get event ''InitiatingProcessFileName'');
          processId = jsOr (jsOr (get event ''ProcessId'') (get (get event ''process'') ''pid''))
                           (get event ''InitiatingProcessId'')
      in if truthy processImage \<and> truthy processId then
           (case elkProcessName processImage of
              Inl e \<Rightarrow> (st, Some e)
            | Inr processName \<Rightarrow>
                (st\<lparr>processes := processes st @
                   [[(''timestamp'', timestamp),
                     (''processId'', processId),
                     (''parentProcessId'',
                        jsOr (jsOr (get event ''ParentProcessId'')
                                   (get (get (get event ''process'') ''parent'') ''pid''))
                             (get event ''InitiatingProcessParentId'')),
                     (''image'', processImage),
                     (''commandLine'',
                        jsOr (jsOr (get event ''CommandLine'') (get (get event ''process'') ''command_line''))
                             (get event ''InitiatingProcessCommandLine'')),
                     (''user'',
                        jsOr (jsOr (get event ''User'') (get (get event ''user'') ''name''))
                             (get event ''UserName'')),
                     (''processName'', processName)]]\<rparr>, None))
         else (st, None))"

definition genericNetwork :: "jsval \<Rightarrow> jsval \<Rightarrow> run \<Rightarrow> run \<times> error option" where
  "genericNetwork event timestamp st =
     (let destIp = jsOr (get event ''DestinationIp'') (get (get event ''destination'') ''ip'');
          sourceIp = jsOr (get event ''SourceIp'') (get (get event ''source'') ''ip'')
      in if truthy destIp then
           (let processImageForConn = jsOr (get event ''Image'') (get (get event ''process'') ''executable'')
            in case elkProcessNameOrNA processImageForConn of
                 Inl e \<Rightarrow> (st, Some e)
               | Inr processNameForConn \<Rightarrow>
                   (st\<lparr>networkConnections := networkConnections st @
                      [[(''timestamp'', timestamp),
                        (''sourceIp'', sourceIp),
                        (''sourcePort'', jsOr (get event ''SourcePort'') (get (get event ''source'') ''port'')),
                        (''destinationIp'', destIp),
                        (''destinationPort'',
                           jsOr (get event ''DestinationPort'') (get (get event ''destination'') ''port'')),
                        (''protocol'', jsOr (get event ''Protocol'') (get (get event ''network'') ''protocol'')),
                        (''processId'', jsOr (get event ''ProcessId'') (get (get event ''process'') ''pid'')),
                        (''image'', processImageForConn),
                        (''user'', jsOr (get event ''User'') (get (get event ''user'') ''name'')),
                        (''processName'', processNameForConn)]]\<rparr>, None))
         else (st, None))"

definition genericFile :: "jsval \<Rightarrow> jsval \<Rightarrow> run \<Rightarrow> run \<times> error option" where
  "genericFile event timestamp st =
     (let filePath = jsOr (get event ''TargetFilename'') (get (get event ''file'') ''path'')
      in if truthy filePath then
           (let processImageForFile = jsOr (get event ''Image'') (get (get event ''process'') ''executable'')
            in case elkProcessNameOrNA processImageForFile of
                 Inl e \<Rightarrow> (st, Some e)
               | Inr processNameForFile \<Rightarrow>
                   (let action =
                          (if get event ''EventID'' = Num 11 then Str ''File Created''
                           else if get event ''EventID'' = Num 23 then Str ''File Deleted''
                           else if truthy (get (get event ''event'') ''action'')
                             then get (get event ''event'') ''action''
                           else Str ''File Activity'')
                    in (st\<lparr>fileActivities := fileActivities st @
                          [[(''timestamp'', timestamp),
                            (''filePath'', filePath),
                            (''action'', action),
                            (''activityType'', action),
                            (''processId'', jsOr (get event ''ProcessId'') (get (get event ''process'') ''pid'')),
                            (''image'', processImageForFile),
                            (''user'', jsOr (get event ''User'') (get (get event ''user'') ''name'')),
                            (''processName'', processNameForFile)]]\<rparr>, None)))
         else (st, None))"

text \<open>
  \<^verbatim>\<open>event.dns.answers.map(a => a.data).join(', ')\<close>: only an array has \<^verbatim>\<open>map\<close>, and
  \<^verbatim>\<open>a.data\<close> throws on a \<^verbatim>\<open>null\<close> element.
\<close>

fun mapData :: "jsval list \<Rightarrow> error + jsval list" where
  "mapData [] = Inr []"
| "mapData (a # as) = bindE (member a ''data'') (\<lambda>d. bindE (mapData as) (\<lambda>ds. Inr (d # ds)))"

definition answersJoined :: "jsval \<Rightarrow> error + jsval" where
  "answersJoined answers =
     (case answers of
        Arr as \<Rightarrow> bindE (mapData as) (\<lambda>ds. bindE (elemStrs ds) (\<lambda>ss. Inr (Str (joinWith '', '' ss))))
      | _ \<Rightarrow> Inl TypeError)"

definition genericDns :: "jsval \<Rightarrow> jsval \<Rightarrow> run \<Rightarrow> run \<times> error option" where
  "genericDns event timestamp st =
     (let dnsQuery = jsOr (get event ''QueryName'') (get (get (get event ''dns'') ''question'') ''name'')
      in if truthy dnsQuery then
           (let processImageForDns = jsOr (get event ''Image'') (get (get event ''process'') ''executable'')
            in case bindE (elkProcessNameOrNA processImageForDns) (\<lambda>processNameForDns.
                    bindE (if truthy (get event ''QueryResults'') then Inr (get event ''QueryResults'')
                           else if truthy (get (get event ''dns'') ''answers'')
                             then answersJoined (get (get event ''dns'') ''answers'')
                           else Inr (Str ''N/A'')) (\<lambda>queryResults.
                    Inr (processNameForDns, queryResults))) of
                 Inl e \<Rightarrow> (st, Some e)
               | Inr (processNameForDns, queryResults) \<Rightarrow>
                   (st\<lparr>dnsQueries := dnsQueries st @
                      [[(''timestamp'', timestamp),
                        (''queryName'', dnsQuery),
                        (''queryResults'', queryResults),
                        (''processId'', jsOr (get event ''ProcessId'') (get (get event ''process'') ''pid'')),
                        (''image'', processImageForDns),
                        (''user'', jsOr (get event ''User'') (get (get event ''user'') ''name'')),
                        (''processName'', processNameForDns)]]\<rparr>, None))
         else (st, None))"

definition processGenericEvent :: "runtime \<Rightarrow> jsval \<Rightarrow> run \<Rightarrow> run \<times> error option" where
  "processGenericEvent rt event st =
     (let (timestamp, st0) = orNow rt (jsOr (get event ''@timestamp'') (get event ''UtcTime'')) st
      in thenDo (thenDo (thenDo (genericProcess event timestamp st0)
                                (genericNetwork event timestamp))
                        (genericFile event timestamp))
                (genericDns event timestamp))"

text \<open>
  The callback of the loop in \<^verbatim>\<open>parseELKLogs\<close>: \<^verbatim>\<open>const event = log._source || log\<close>
  throws on a \<^verbatim>\<open>null\<close> element.
\<close>

definition elkLog :: "runtime \<Rightarrow> jsval \<Rightarrow> run \<Rightarrow> run \<times> error option" where
  "elkLog rt log st =
     (if nullish log then (st, Some TypeError)
      else processGenericEvent rt (jsOr (get log ''_source'') log) st)"

text \<open>\<^verbatim>\<open>content.trim().split('\n').map(line => JSON.parse(line))\<close>; \<open>None\<close> when a line fails.\<close>

fun parseLines :: "runtime \<Rightarrow> string list \<Rightarrow> jsval list option" where
  "parseLines rt [] = Some []"
| "parseLines rt (l # ls) =
     (case jsonParse rt l of
        None \<Rightarrow> None
      | Some v \<Rightarrow> (case parseLines rt ls of None \<Rightarrow> None | Some vs \<Rightarrow> Some (v # vs)))"

text \<open>
  \<^verbatim>\<open>parseELKLogs(content)\<close>: the two \<^verbatim>\<open>try\<close> blocks hold the parsing only, and the
  loop over the events runs outside them.
\<close>

definition elkEvents :: "runtime \<Rightarrow> string \<Rightarrow> jsval list option" where
  "elkEvents rt content =
     (case jsonParse rt content of
        Some (Arr events) \<Rightarrow> Some events
      | Some v \<Rightarrow> Some [v]
      | None \<Rightarrow> parseLines rt (splitOn CHR 0x0A (trim content)))"

definition parseELKLogs :: "runtime \<Rightarrow> string \<Rightarrow> run \<Rightarrow> run \<times> error option" where
  "parseELKLogs rt content st =
     (case elkEvents rt content of
        None \<Rightarrow> (st, None)
      | Some events \<Rightarrow> forEach (elkLog rt) events st)"

definition elk_parseByFormat :: "runtime \<Rightarrow> string \<Rightarrow> string \<Rightarrow> run \<Rightarrow> run \<times> error option" where
  "elk_parseByFormat rt content format st =
     (if format = ''elk'' then parseELKLogs rt content st else (st, None))"

text \<open>
  The loop over \<^verbatim>\<open>networkConnections\<close> has the same body in
  \<^verbatim>\<open>ElkLogParser.generateVisualizationData\<close> and
  \<^verbatim>\<open>DefenderLogParser.generateVisualizationData\<close>; the loop over
  \<^verbatim>\<open>fileActivities\<close> has the same body in \<^verbatim>\<open>ElkLogParser\<close> and \<^verbatim>\<open>WazuhLogParser\<close>.
\<close>

definition c2_connection :: "object \<Rightarrow> visualization \<times> nat \<Rightarrow> error + visualization \<times> nat" where
  "c2_connection conn = (\<lambda>(v, step).
     (let processName = jsOr (field conn ''processName'') (Str ''N/A'')
      in bindE (isInternalIP (field conn ''destinationIp'')) (\<lambda>internal.
         bindE
           (if \<not> internal then
              report
                [Str ''Command and Control Connection: Outbound connection to C2 IP: '',
                 field conn ''destinationIp'', Str '':'', field conn ''destinationPort'',
                 Str '' (Process: '', processName, Str '')'']
                [Str ''. Command and Control (C2): Suspicious network connection to '',
                 field conn ''destinationIp'', Str '':'', field conn ''destinationPort'',
                 Str '' from '', processName]
                (v, step)
            else Inr (v, step))
           (\<lambda>(v', step').
              Inr (pushConnection (setProp conn ''process'' processName) v', step')))))"

definition plain_file :: "object \<Rightarrow> visualization \<times> nat \<Rightarrow> error + visualization \<times> nat" where
  "plain_file file = (\<lambda>(v, step).
     (let processName = jsOr (field file ''processName'') (Str ''N/A'')
      in Inr (pushFileActivity (setProp file ''process'' processName) v, step)))"

definition elk_generateVisualizationData :: "'a parsedData_scheme \<Rightarrow> error + visualization" where
  "elk_generateVisualizationData pd =
     bindE (forEachE c2_connection (networkConnections pd) (emptyVisualization, 1)) (\<lambda>s1.
     bindE (forEachE plain_file (fileActivities pd) s1) (\<lambda>(v, step).
     Inr (setDnsQueries (map dnsWithProcess (dnsQueries pd)) v)))"

text \<open>An exception of \<^verbatim>\<open>parseByFormat\<close> ends the loop over the files and rejects the call.\<close>

definition elk_parseFiles :: "runtime \<Rightarrow> string list \<Rightarrow> string \<Rightarrow> run \<times> error option" where
  "elk_parseFiles rt files format =
     forEach (\<lambda>content. elk_parseByFormat rt content format) files clearParsedData"

definition elk_parseLogs :: "runtime \<Rightarrow> string list \<Rightarrow> string \<Rightarrow> parsedData \<Rightarrow> error + visualization" where
  "elk_parseLogs rt files format before =
     (case elk_parseFiles rt files format of
        (st, Some e) \<Rightarrow> Inl e
      | (st, None) \<Rightarrow> elk_generateVisualizationData st)"

section \<open>The endpoint-protection adapter (DefenderLogParser)\<close>

text \<open>The callback of the loop in \<^verbatim>\<open>parseDefenderLogs\<close>.\<close>

definition defenderEvent :: "runtime \<Rightarrow> jsval \<Rightarrow> run \<Rightarrow> run \<times> error option" where
  "defenderEvent rt event st =
     (if nullish event then (st, Some TypeError)
      else
        (let (timestamp, st1) = orNow rt (get event ''TimeGenerated'') st;
             processName = jsOr (get event ''InitiatingProcessFileName'') (Str ''N/A'');
             user = jsOr (get event ''UserName'') (Str ''N/A'')
         in if get event ''EventType'' = Str ''ProcessCreated'' then
              (st1\<lparr>processes := processes st1 @
                 [[(''timestamp'', timestamp),
                   (''processId'', get event ''InitiatingProcessId''),
                   (''parentProcessId'', get event ''InitiatingProcessParentId''),
                   (''image'', get event ''InitiatingProcessFileName''),
                   (''commandLine'', get event ''InitiatingProcessCommandLine''),
                   (''user'', user),
                   (''processName'', processName)]]\<rparr>, None)
            else if get event ''EventType'' = Str ''NetworkConnection'' then
              (st1\<lparr>networkConnections := networkConnections st1 @
                 [[(''timestamp'', timestamp),
                   (''sourceIp'', get event ''SourceIp''),
                   (''sourcePort'', get event ''SourcePort''),
                   (''destinationIp'', get event ''DestinationIp''),
                   (''destinationPort'', get event ''DestinationPort''),
                   (''protocol'', get event ''Protocol''),
                   (''processId'', get event ''InitiatingProcessId''),
                   (''image'', get event ''InitiatingProcessFileName''),
                   (''user'', user),
                   (''processName'', processName)]]\<rparr>, None)
            else if get event ''EventType'' = Str ''FileCreated''
                    \<or> get event ''EventType'' = Str ''FileDeleted'' then
              (st1\<lparr>fileActivities := fileActivities st1 @
                 [[(''timestamp'', timestamp),
                   (''filePath'', jsOr (get event ''FileName'') (get event ''FolderPath'')),
                   (''action'',
                      if get event ''EventType'' = Str ''FileCreated''
                      then Str ''File Created'' else Str ''File Deleted''),
                   (''activityType'', get event ''EventType''),
                   (''processId'', get event ''InitiatingProcessId''),
                   (''image'', get event ''InitiatingProcessFileName''),
                   (''user'', user),
                   (''processName'', processName)]]\<rparr>, None)
            else if get event ''EventType'' = Str ''DnsQuery'' then
              (st1\<lparr>dnsQueries := dnsQueries st1 @
                 [[(''timestamp'', timestamp),
                   (''queryName'', get event ''QueryName''),
                   (''queryResults'', get event ''QueryResults''),
                   (''processId'', get event ''InitiatingProcessId''),
                   (''image'', get event ''InitiatingProcessFileName''),
                   (''user'', user),
                   (''processName'', processName)]]\<rparr>, None)
            else if get event ''EventType'' = Str ''Detection'' then
              (st1\<lparr>threats := threats st1 @
                 [[(''timestamp'', timestamp),
                   (''threatName'', get event ''ThreatName''),
                   (''severity'', get event ''Severity''),
                   (''filePath'', jsOr (get event ''FileName'') (get event ''FolderPath'')),
                   (''processName'', jsOr (get event ''InitiatingProcessFileName'') processName),
                   (''description'', get event ''ThreatName''),
                   (''type'', Str ''defender_detection'')]]\<rparr>, None)
            else if get event ''EventType'' = Str ''RegistryValueSet'' then
              (st1\<lparr>registryChanges := registryChanges st1 @
                 [[(''timestamp'', timestamp),
                   (''key'', get event ''RegistryKey''),
                   (''valueName'', get event ''RegistryValueName''),
                   (''valueData'', get event ''RegistryValueData''),
                   (''processId'', get event ''InitiatingProcessId''),
                   (''image'', get event ''InitiatingProcessFileName''),
                   (''user'', user),
                   (''processName'', processName)]]\<rparr>, None)
            else (st1, None)))"

definition parseDefenderLogs :: "runtime \<Rightarrow> string \<Rightarrow> run \<Rightarrow> run" where
  "parseDefenderLogs rt content st =
     (case jsonParse rt content of
        None \<Rightarrow> st
      | Some (Arr events) \<Rightarrow> fst (forEach (defenderEvent rt) events st)
      | Some _ \<Rightarrow> st)"

definition defender_parseByFormat :: "runtime \<Rightarrow> string \<Rightarrow> string \<Rightarrow> run \<Rightarrow> run" where
  "defender_parseByFormat rt content format st =
     (if format = ''defender'' then parseDefenderLogs rt content st else st)"

definition defender_file :: "object \<Rightarrow> visualization \<times> nat \<Rightarrow> error + visualization \<times> nat" where
  "defender_file file = (\<lambda>(v, step).
     (let processName = jsOr (field file ''processName'') (Str ''N/A'')
      in bindE
           (if field file ''action'' = Str ''File Created'' then
              jsIncludes (field file ''filePath'') ''Temp''
            else Inr False) (\<lambda>staged.
         bindE
           (if staged then
              report
                [Str ''Exfiltration Staging: File created in temp: '', field file ''filePath'',
                 Str '' (Process: '', processName, Str '')'']
                [Str ''. Exfiltration: Data staged in '', field file ''filePath'']
                (v, step)
            else Inr (v, step))
           (\<lambda>(v', step').
              Inr (pushFileActivity (setProp file ''process'' processName) v', step')))))"

text \<open>
  The object that both \<^verbatim>\<open>DefenderLogParser\<close> and \<^verbatim>\<open>WazuhLogParser\<close> put into
  \<^verbatim>\<open>threatIndicators\<close> for a record \<open>t\<close> of \<^verbatim>\<open>parsedData.threats\<close>.
\<close>

definition threatIndicator :: "object \<Rightarrow> jsval" where
  "threatIndicator t =
     Obj [(''threatName'', field t ''threatName''),
          (''description'', field t ''description''),
          (''processName'', field t ''processName''),
          (''severity'', field t ''severity'')]"

definition pushThreatIndicators :: "jsval list \<Rightarrow> visualization \<Rightarrow> visualization" where
  "pushThreatIndicators xs v =
     v\<lparr>aptPatterns := (aptPatterns v)\<lparr>threatIndicators := threatIndicators (aptPatterns v) @ xs\<rparr>\<rparr>"

definition defender_generateVisualizationData :: "'a parsedData_scheme \<Rightarrow> error + visualization" where
  "defender_generateVisualizationData pd =
     bindE (forEachE c2_connection (networkConnections pd) (emptyVisualization, 1)) (\<lambda>s1.
     bindE (forEachE defender_file (fileActivities pd) s1) (\<lambda>(v, step).
     Inr (setDnsQueries (map dnsWithProcess (dnsQueries pd))
            (pushThreatIndicators (map threatIndicator (threats pd)) v))))"

definition defender_parseFiles :: "runtime \<Rightarrow> string list \<Rightarrow> string \<Rightarrow> run" where
  "defender_parseFiles rt files format =
     fold (\<lambda>content. defender_parseByFormat rt content format) files clearParsedData"

definition defender_parseLogs :: "runtime \<Rightarrow> string list \<Rightarrow> string \<Rightarrow> parsedData \<Rightarrow> error + visualization" where
  "defender_parseLogs rt files format before =
     defender_generateVisualizationData (defender_parseFiles rt files format)"

section \<open>The host-IDS adapter (WazuhLogParser)\<close>

text \<open>
  The callback of the loop in \<^verbatim>\<open>parseWazuhLogs\<close>, in its two parts: the threat of
  the rule, then the file-integrity event. The second part can throw after the
  first has pushed.
\<close>

definition wazuhThreat :: "runtime \<Rightarrow> jsval \<Rightarrow> jsval \<Rightarrow> run \<Rightarrow> run \<times> error option" where
  "wazuhThreat rt alert timestamp st =
     (let rule = jsOr (get alert ''rule'') (Obj []);
          data = jsOr (get alert ''data'') (Obj [])
      in if truthy (get rule ''id'') \<and> truthy (get rule ''description'') then
           (case mapWazuhLevel rt (get rule ''level'') of
              Inl e \<Rightarrow> (st, Some e)
            | Inr severity \<Rightarrow>
                (st\<lparr>threats := threats st @
                   [[(''timestamp'', timestamp),
                     (''threatName'', get rule ''description''),
                     (''rule'', get rule ''id''),
                     (''severity'', severity),
                     (''description'', jsOr (get alert ''full_log'') (get rule ''description'')),
                     (''type'', Str ''wazuh_alert''),
                     (''processName'',
                        jsOr (jsOr (get (get (get (get data ''audit'') ''event'') ''process'') ''name'')
                                   (get data ''command''))
                             (Str ''N/A''))]]\<rparr>, None))
         else (st, None))"

definition wazuhFim :: "jsval \<Rightarrow> jsval \<Rightarrow> run \<Rightarrow> run \<times> error option" where
  "wazuhFim alert timestamp st =
     (let data = jsOr (get alert ''data'') (Obj []);
          event = get (get data ''audit'') ''event''
      in if truthy (get event ''file'') \<and> truthy (get event ''action'') then
           (case template [Str ''wazuh-fim-'', get event ''action''] of
              Inl e \<Rightarrow> (st, Some e)
            | Inr activityType \<Rightarrow>
                (st\<lparr>fileActivities := fileActivities st @
                   [[(''timestamp'', timestamp),
                     (''filePath'', get event ''file''),
                     (''action'', get event ''action''),
                     (''activityType'', Str activityType),
                     (''processId'', get (get event ''process'') ''pid''),
                     (''image'', get (get event ''process'') ''name''),
                     (''user'', get event ''user''),
                     (''processName'', jsOr (get (get event ''process'') ''name'') (Str ''N/A''))]]\<rparr>, None))
         else (st, None))"

definition wazuhAlert :: "runtime \<Rightarrow> jsval \<Rightarrow> run \<Rightarrow> run \<times> error option" where
  "wazuhAlert rt alert st =
     (if nullish alert then (st, Some TypeError)
      else
        (let (timestamp, st1) = orNow rt (get alert ''timestamp'') st
         in thenDo (wazuhThreat rt alert timestamp st1) (wazuhFim alert timestamp)))"

definition parseWazuhLogs :: "runtime \<Rightarrow> string \<Rightarrow> run \<Rightarrow> run" where
  "parseWazuhLogs rt content st =
     (case jsonParse rt content of
        None \<Rightarrow> st
      | Some (Arr alerts) \<Rightarrow> fst (forEach (wazuhAlert rt) alerts st)
      | Some _ \<Rightarrow> st)"

definition wazuh_parseByFormat :: "runtime \<Rightarrow> string \<Rightarrow> string \<Rightarrow> run \<Rightarrow> run" where
  "wazuh_parseByFormat rt content format st =
     (if format = ''wazuh'' then parseWazuhLogs rt content st else st)"

definition wazuh_threat :: "object \<Rightarrow> visualization \<times> nat \<Rightarrow> error + visualization \<times> nat" where
  "wazuh_threat t = (\<lambda>(v, step).
     bindE (template [Num (int step), Str ''. '', field t ''threatName'', Str '': '',
              field t ''description'']) (\<lambda>entry.
     Inr (pushAttackChain entry (pushThreatIndicator (threatIndicator t) v), Suc step)))"

definition plain_connection :: "object \<Rightarrow> visualization \<times> nat \<Rightarrow> error + visualization \<times> nat" where
  "plain_connection conn = (\<lambda>(v, step).
     (let processName = jsOr (field conn ''processName'') (Str ''N/A'')
      in Inr (pushConnection (setProp conn ''process'' processName) v, step)))"

definition wazuh_generateVisualizationData :: "'a parsedData_scheme \<Rightarrow> error + visualization" where
  "wazuh_generateVisualizationData pd =
     bindE (forEachE wazuh_threat (threats pd) (emptyVisualization, 1)) (\<lambda>s1.
     bindE (forEachE plain_file (fileActivities pd) s1) (\<lambda>s2.
     bindE (forEachE plain_connection (networkConnections pd) s2) (\<lambda>(v, step).
     Inr (setDnsQueries (map dnsWithProcess (dnsQueries pd)) v))))"

definition wazuh_parseFiles :: "runtime \<Rightarrow> string list \<Rightarrow> string \<Rightarrow> run" where
  "wazuh_parseFiles rt files format =
     fold (\<lambda>content. wazuh_parseByFormat rt content format) files clearParsedData"

definition wazuh_parseLogs :: "runtime \<Rightarrow> string list \<Rightarrow> string \<Rightarrow> parsedData \<Rightarrow> error + visualization" where
  "wazuh_parseLogs rt files format before =
     wazuh_generateVisualizationData (wazuh_parseFiles rt files format)"

section \<open>Notions of the specification\<close>

text \<open>
  The \<open>i\<close>-th part of an address, read as a number the way the classifier reads it,
  and the address written from four numbers in decimal.
\<close>

definition octet :: "string \<Rightarrow> nat \<Rightarrow> int option" where
  "octet s i = parseInt (splitOn CHR ''.'' s ! i)"

definition dottedQuad :: "nat \<Rightarrow> nat \<Rightarrow> nat \<Rightarrow> nat \<Rightarrow> string" where
  "dottedQuad a b c d = showNat a @ ''.'' @ showNat b @ ''.'' @ showNat c @ ''.'' @ showNat d"

text \<open>
  The fields that decide whether \<^verbatim>\<open>processGenericEvent\<close> and the callback of
  \<^verbatim>\<open>parseWazuhLogs\<close> push a record, as those functions compute them.
\<close>

definition elk_processImage :: "jsval \<Rightarrow> jsval" where
  "elk_processImage event =
     jsOr (jsOr (get event ''Image'') (get (get event ''process'') ''executable''))
          (get event ''InitiatingProcessFileName'')"

definition elk_processId :: "jsval \<Rightarrow> jsval" where
  "elk_processId event =
     jsOr (jsOr (get event ''ProcessId'') (get (get event ''process'') ''pid''))
          (get event ''InitiatingProcessId'')"

definition elk_destIp :: "jsval \<Rightarrow> jsval" where
  "elk_destIp event = jsOr (get event ''DestinationIp'') (get (get event ''destination'') ''ip'')"

definition elk_filePath :: "jsval \<Rightarrow> jsval" where
  "elk_filePath event = jsOr (get event ''TargetFilename'') (get (get event ''file'') ''path'')"

definition elk_dnsQuery :: "jsval \<Rightarrow> jsval" where
  "elk_dnsQuery event =
     jsOr (get event ''QueryName'') (get (get (get event ''dns'') ''question'') ''name'')"

definition wazuh_rule :: "jsval \<Rightarrow> jsval" where
  "wazuh_rule alert = jsOr (get alert ''rule'') (Obj [])"

definition wazuh_auditEvent :: "jsval \<Rightarrow> jsval" where
  "wazuh_auditEvent alert = get (get (jsOr (get alert ''data'') (Obj [])) ''audit'') ''event''"

text \<open>
  The entries of an attack chain carry the numbers \<open>n\<close>, \<open>n + 1\<close>, ... in order;
  \<open>chainInv\<close> is what the loops of \<^verbatim>\<open>generateVisualizationData\<close> keep true of the
  bundle and \<^verbatim>\<open>step\<close>.
\<close>

fun numbered :: "nat \<Rightarrow> string list \<Rightarrow> bool" where
  "numbered n [] = True"
| "numbered n (e # es) = (startsWith e (showNat n @ ''. '') \<and> numbered (Suc n) es)"

definition chainInv :: "visualization \<times> nat \<Rightarrow> bool" where
  "chainInv s = (numbered 1 (attackChain (aptPatterns (fst s)))
                 \<and> snd s = Suc (length (attackChain (aptPatterns (fst s)))))"

text \<open>
  The attack-chain entry of the host-IDS adapter for the alert \<open>t\<close> at step \<open>k\<close>:
  \<^verbatim>\<open>`${step++}. ${t.threatName}: ${t.description}`\<close>.
\<close>

definition wazuhEntry :: "nat \<Rightarrow> object \<Rightarrow> error + string" where
  "wazuhEntry k t =
     template [Num (int k), Str ''. '', field t ''threatName'', Str '': '', field t ''description'']"

text \<open>
  The two texts of the command-and-control rule, a connection whose destination
  the classifier finds not internal, and the number of command-and-control
  indicators and attack-chain entries of a bundle.
\<close>

definition c2Indicator :: "string \<Rightarrow> string \<Rightarrow> string \<Rightarrow> string" where
  "c2Indicator ip port name =
     ''Command and Control Connection: Outbound connection to C2 IP: '' @ ip @ '':'' @ port
       @ '' (Process: '' @ name @ '')''"

definition c2Entry :: "nat \<Rightarrow> string \<Rightarrow> string \<Rightarrow> string \<Rightarrow> string" where
  "c2Entry step ip port name =
     showNat step @ ''. Command and Control (C2): Suspicious network connection to '' @ ip
       @ '':'' @ port @ '' from '' @ name"

definition notInternal :: "object \<Rightarrow> bool" where
  "notInternal conn = (isInternalIP (field conn ''destinationIp'') = Inr False)"

definition isC2Indicator :: "jsval \<Rightarrow> bool" where
  "isC2Indicator x =
     (case x of Str s \<Rightarrow> startsWith s ''Command and Control Connection: '' | _ \<Rightarrow> False)"

definition isC2Entry :: "string \<Rightarrow> bool" where
  "isC2Entry e = startsWith (dropWhile isDigit e) ''. Command and Control (C2): ''"

definition c2Count :: "visualization \<Rightarrow> nat \<times> nat" where
  "c2Count v = (length (filter isC2Indicator (threatIndicators (aptPatterns v))),
                length (filter isC2Entry (attackChain (aptPatterns v))))"

text \<open>
  The final path segment of an image: what follows its last separator, a backslash
  or a slash. The three ways in which a record's \<^verbatim>\<open>processName\<close> goes with its
  \<^verbatim>\<open>image\<close>: derived from it (the final segment, or \<^verbatim>\<open>N/A\<close> when there is none),
  derived from it when it has no slash, and taken as it is. \<open>imageRecords\<close> are the
  records of the state that have an image.
\<close>

definition finalSegment :: "string \<Rightarrow> string" where
  "finalSegment s = rev (takeWhile (\<lambda>c. c \<noteq> bs \<and> c \<noteq> CHR ''/'') (rev s))"

definition windowsPath :: string where
  "windowsPath = ''C:'' @ [bs] @ ''Windows'' @ [bs] @ ''System32'' @ [bs] @ ''cmd.exe''"

definition derivedName :: "jsval \<Rightarrow> jsval \<Rightarrow> bool" where
  "derivedName img name =
     (if truthy img then (case img of Str s \<Rightarrow> name = Str (finalSegment s) | _ \<Rightarrow> False)
      else name = Str ''N/A'')"

definition sysmonName :: "jsval \<Rightarrow> jsval \<Rightarrow> bool" where
  "sysmonName img name =
     (if truthy img then
        (case img of
           Str s \<Rightarrow> (if CHR ''/'' \<in> set s then True else name = Str (finalSegment s))
         | _ \<Rightarrow> False)
      else name = Str ''N/A'')"

definition verbatimName :: "jsval \<Rightarrow> jsval \<Rightarrow> bool" where
  "verbatimName img name = (name = jsOr img (Str ''N/A''))"

definition recordNamed :: "(jsval \<Rightarrow> jsval \<Rightarrow> bool) \<Rightarrow> object \<Rightarrow> bool" where
  "recordNamed P r = P (field r ''image'') (field r ''processName'')"

definition imageRecords :: "'a parsedData_scheme \<Rightarrow> object list" where
  "imageRecords pd =
     processes pd @ networkConnections pd @ fileActivities pd @ dnsQueries pd @ registryChanges pd"

definition allNamed :: "(jsval \<Rightarrow> jsval \<Rightarrow> bool) \<Rightarrow> 'a parsedData_scheme \<Rightarrow> bool" where
  "allNamed P pd = list_all (recordNamed P) (imageRecords pd)"

text \<open>\<^verbatim>\<open>Array.isArray\<close>.\<close>

fun isArray :: "jsval \<Rightarrow> bool" where
  "isArray (Arr xs) = True"
| "isArray v = False"

section \<open>Sample inputs\<close>

text \<open>
  Log files and what \<^verbatim>\<open>JSON.parse\<close> returns for them; \<open>sampleRuntime now\<close> is a
  runtime that parses these files and whose clock always reads \<open>now\<close>.
\<close>

definition networkEvent :: jsval where
  "networkEvent = Obj [(''EventID'', Num 3), (''DestinationIp'', Str ''203.0.113.5'')]"

definition networkObjectFile :: string where
  "networkObjectFile = ''{\"EventID\":3,\"DestinationIp\":\"203.0.113.5\"}''"

definition networkArrayFile :: string where
  "networkArrayFile = ''[{\"EventID\":3,\"DestinationIp\":\"203.0.113.5\"}]''"

definition noDestinationEvent :: jsval where
  "noDestinationEvent = Obj [(''EventID'', Num 3)]"

definition noDestinationFile :: string where
  "noDestinationFile = ''[{\"EventID\":3}]''"

definition defenderConnectionEvent :: jsval where
  "defenderConnectionEvent = Obj [(''EventType'', Str ''NetworkConnection'')]"

definition fileCreatedEvent :: jsval where
  "fileCreatedEvent = Obj [(''EventID'', Num 11)]"

definition fileCreatedFile :: string where
  "fileCreatedFile = ''[{\"EventID\":11}]''"

definition defenderFileEvent :: jsval where
  "defenderFileEvent = Obj [(''EventType'', Str ''FileCreated'')]"

definition defenderFileFile :: string where
  "defenderFileFile = ''[{\"EventType\":\"FileCreated\"}]''"

definition nullFile :: string where
  "nullFile = ''null''"

definition detectionEvent :: jsval where
  "detectionEvent =
     Obj [(''EventType'', Str ''Detection''), (''ThreatName'', Str ''Trojan:Win32/Agent''),
          (''Severity'', Str ''High'')]"

definition detectionFile :: string where
  "detectionFile =
     ''[{\"EventType\":\"Detection\",\"ThreatName\":\"Trojan:Win32/Agent\",\"Severity\":\"High\"}]''"

definition wazuhAlertEvent :: jsval where
  "wazuhAlertEvent =
     Obj [(''rule'', Obj [(''id'', Str ''5712''), (''level'', Num 10),
                          (''description'', Str ''sshd: brute force'')])]"

definition wazuhAlertFile :: string where
  "wazuhAlertFile =
     ''[{\"rule\":{\"id\":\"5712\",\"level\":10,\"description\":\"sshd: brute force\"}}]''"

definition bashProcessEvent :: jsval where
  "bashProcessEvent = Obj [(''EventID'', Num 1), (''Image'', Str ''/usr/bin/bash'')]"

definition bashProcessFile :: string where
  "bashProcessFile = ''[{\"EventID\":1,\"Image\":\"/usr/bin/bash\"}]''"


definition elkProcessEvent :: jsval where
  "elkProcessEvent =
     Obj [(''process'', Obj [(''executable'', Str ''/usr/bin/bash''), (''pid'', Num 42)]),
          (''destination'', Obj [(''ip'', Str ''203.0.113.5'')])]"

definition elkProcessFile :: string where
  "elkProcessFile =
     ''{\"process\":{\"executable\":\"/usr/bin/bash\",\"pid\":42},\"destination\":{\"ip\":\"203.0.113.5\"}}''"

definition defenderProcessEvent :: jsval where
  "defenderProcessEvent =
     Obj [(''EventType'', Str ''ProcessCreated''),
          (''InitiatingProcessFileName'', Str ''/opt/agent/bin/scan'')]"

definition defenderProcessFile :: string where
  "defenderProcessFile =
     ''[{\"EventType\":\"ProcessCreated\",\"InitiatingProcessFileName\":\"/opt/agent/bin/scan\"}]''"

definition sampleJSON :: "string \<Rightarrow> jsval option" where
  "sampleJSON =
     map_of
       [(networkObjectFile, networkEvent),
        (networkArrayFile, Arr [networkEvent]),
        (noDestinationFile, Arr [noDestinationEvent]),
        (fileCreatedFile, Arr [fileCreatedEvent]),
        (defenderFileFile, Arr [defenderFileEvent]),
        (nullFile, Null),
        (detectionFile, Arr [detectionEvent]),
        (wazuhAlertFile, Arr [wazuhAlertEvent]),
        (bashProcessFile, Arr [bashProcessEvent]),
        (elkProcessFile, elkProcessEvent),
        (defenderProcessFile, Arr [defenderProcessEvent])]"

definition sampleRuntime :: "string \<Rightarrow> runtime" where
  "sampleRuntime now = \<lparr>jsonParse = sampleJSON, clock = (\<lambda>n. now), strToNumber = (\<lambda>s. None)\<rparr>"

definition noData :: parsedData where
  "noData =
     \<lparr>processes = [], networkConnections = [], fileActivities = [], dllActivities = [],
      registryChanges = [], userActivities = [], threats = [], dnsQueries = []\<rparr>"

text \<open>The bundle of a run on two of these files.\<close>

definition twoConnectionsBundle :: visualization where
  "twoConnectionsBundle =
     \<lparr>aptPatterns =
        \<lparr>threatIndicators =
           [Str ''Command and Control Connection: Outbound connection to C2 IP: 203.0.113.5:undefined (Process: N/A)'',
            Str ''Command and Control Connection: Outbound connection to C2 IP: undefined:undefined (Process: N/A)''],
         attackChain =
           [''1. Command and Control (C2): Suspicious network connection to 203.0.113.5:undefined from N/A'',
            ''2. Command and Control (C2): Suspicious network connection to undefined:undefined from N/A'']\<rparr>,
      fileMap = \<lparr>fileMap.fileActivities = []\<rparr>,
      networkMap =
        \<lparr>connections =
           [[(''timestamp'', Str ''t''), (''sourceIp'', Undefined), (''sourcePort'', Undefined),
             (''destinationIp'', Str ''203.0.113.5''), (''destinationPort'', Undefined),
             (''protocol'', Undefined), (''processId'', Undefined), (''image'', Undefined),
             (''user'', Undefined), (''processName'', Str ''N/A''), (''process'', Str ''N/A'')],
            [(''timestamp'', Str ''t''), (''sourceIp'', Undefined), (''sourcePort'', Undefined),
             (''destinationIp'', Undefined), (''destinationPort'', Undefined),
             (''protocol'', Undefined), (''processId'', Undefined), (''image'', Undefined),
             (''user'', Undefined), (''processName'', Str ''N/A''), (''process'', Str ''N/A'')]],
         networkMap.dnsQueries = []\<rparr>\<rparr>"

text \<open>The state and the bundle of a run on the host-IDS alert, and on the detection.\<close>

definition wazuhParsed :: run where
  "wazuhParsed =
     clearParsedData
       \<lparr>threats :=
          [[(''timestamp'', Str ''t''), (''threatName'', Str ''sshd: brute force''),
            (''rule'', Str ''5712''), (''severity'', Str ''medium''),
            (''description'', Str ''sshd: brute force''), (''type'', Str ''wazuh_alert''),
            (''processName'', Str ''N/A'')]],
        clockReads := 1\<rparr>"

definition wazuhBundle :: visualization where
  "wazuhBundle =
     \<lparr>aptPatterns =
        \<lparr>threatIndicators =
           [Obj [(''threatName'', Str ''sshd: brute force''),
                 (''description'', Str ''sshd: brute force''),
                 (''processName'', Str ''N/A''), (''severity'', Str ''medium'')]],
         attackChain = [''1. sshd: brute force: sshd: brute force'']\<rparr>,
      fileMap = \<lparr>fileMap.fileActivities = []\<rparr>,
      networkMap = \<lparr>connections = [], networkMap.dnsQueries = []\<rparr>\<rparr>"

definition detectionParsed :: run where
  "detectionParsed =
     clearParsedData
       \<lparr>threats :=
          [[(''timestamp'', Str ''t''), (''threatName'', Str ''Trojan:Win32/Agent''),
            (''severity'', Str ''High''), (''filePath'', Undefined),
            (''processName'', Str ''N/A''), (''description'', Str ''Trojan:Win32/Agent''),
            (''type'', Str ''defender_detection'')]],
        clockReads := 1\<rparr>"

definition detectionBundle :: visualization where
  "detectionBundle =
     \<lparr>aptPatterns =
        \<lparr>threatIndicators =
           [Obj [(''threatName'', Str ''Trojan:Win32/Agent''),
                 (''description'', Str ''Trojan:Win32/Agent''),
                 (''processName'', Str ''N/A''), (''severity'', Str ''High'')]],
         attackChain = []\<rparr>,
      fileMap = \<lparr>fileMap.fileActivities = []\<rparr>,
      networkMap = \<lparr>connections = [], networkMap.dnsQueries = []\<rparr>\<rparr>"

text \<open>The state from which \<open>twoConnectionsBundle\<close> is generated.\<close>

definition twoConnectionsParsed :: run where
  "twoConnectionsParsed =
     clearParsedData
       \<lparr>networkConnections :=
          [[(''timestamp'', Str ''t''), (''sourceIp'', Undefined), (''sourcePort'', Undefined),
            (''destinationIp'', Str ''203.0.113.5''), (''destinationPort'', Undefined),
            (''protocol'', Undefined), (''processId'', Undefined), (''image'', Undefined),
            (''user'', Undefined), (''processName'', Str ''N/A'')],
           [(''timestamp'', Str ''t''), (''sourceIp'', Undefined), (''sourcePort'', Undefined),
            (''destinationIp'', Undefined), (''destinationPort'', Undefined),
            (''protocol'', Undefined), (''processId'', Undefined), (''image'', Undefined),
            (''user'', Undefined), (''processName'', Str ''N/A'')]],
        clockReads := 2\<rparr>"


section \<open>Decimal numerals and splitting\<close>

lemma digitVal_digitChar: "digitVal (digitChar d) = Some (d mod 10)"
proof -
  have "d mod 10 = 0 \<or> d mod 10 = 1 \<or> d mod 10 = 2 \<or> d mod 10 = 3 \<or> d mod 10 = 4
        \<or> d mod 10 = 5 \<or> d mod 10 = 6 \<or> d mod 10 = 7 \<or> d mod 10 = 8 \<or> d mod 10 = 9"
    by presburger
  then show ?thesis
    by (elim disjE) (simp_all add: digitVal_def digitChar_def)
qed

lemma isDigit_digitChar: "isDigit (digitChar d)"
  by (simp add: isDigit_def digitVal_digitChar)

lemma showNat_digits: "c \<in> set (showNat n) \<Longrightarrow> isDigit c"
proof (induction n arbitrary: c rule: showNat.induct)
  case (1 n)
  show ?case
  proof (cases "n < 10")
    case True
    with "1.prems" show ?thesis
      by (simp add: showNat.simps [of n] isDigit_digitChar)
  next
    case False
    with "1.prems" "1.IH" show ?thesis
      by (auto simp: showNat.simps [of n] isDigit_digitChar)
  qed
qed

lemma showNat_nonempty: "showNat n \<noteq> []"
  by (simp add: showNat.simps [of n])

lemma digitsVal_snoc:
  "digitsVal (ds @ [c]) = 10 * digitsVal ds + (case digitVal c of Some d \<Rightarrow> d | None \<Rightarrow> 0)"
  by (simp add: digitsVal_def)

lemma digitsVal_showNat: "digitsVal (showNat n) = n"
proof (induction n rule: showNat.induct)
  case (1 n)
  show ?case
  proof (cases "n < 10")
    case True
    then show ?thesis
      using digitsVal_snoc [of "[]" "digitChar n"]
      by (simp add: showNat.simps [of n] digitVal_digitChar digitsVal_def)
  next
    case False
    with "1.IH" show ?thesis
      by (simp add: showNat.simps [of n] digitsVal_snoc digitVal_digitChar)
  qed
qed

lemma isDigit_plain:
  "isDigit c \<Longrightarrow> \<not> isWhiteSpace c \<and> c \<noteq> CHR ''+'' \<and> c \<noteq> CHR ''-'' \<and> c \<noteq> CHR ''.''"
  by (auto simp: isDigit_def digitVal_def isWhiteSpace_def split: if_splits)

text \<open>\<^verbatim>\<open>parseInt\<close> reads a number written in decimal back.\<close>

lemma parseInt_showNat: "parseInt (showNat n) = Some (int n)"
proof -
  have hd: "isDigit (hd (showNat n))"
    using showNat_nonempty [of n] showNat_digits [of "hd (showNat n)" n] by simp
  have dw: "dropWhile isWhiteSpace (showNat n) = showNat n"
    using isDigit_plain [OF hd] by (simp add: dropWhile_eq_self_iff)
  have tw: "takeWhile isDigit (showNat n) = showNat n"
    using showNat_digits [of _ n] by simp
  show ?thesis
    using isDigit_plain [OF hd]
    by (simp add: parseInt_def Let_def dw tw showNat_nonempty digitsVal_showNat)
qed

lemma splitOn_no_sep: "c \<notin> set s \<Longrightarrow> splitOn c s = [s]"
  by (induction s) auto

lemma splitOn_append: "c \<notin> set s \<Longrightarrow> splitOn c (s @ c # t) = s # splitOn c t"
  by (induction s) auto

lemma splitOn_nonempty: "splitOn c s \<noteq> []"
  by (induction s) (auto split: list.splits)

lemma dot_notin_showNat: "CHR ''.'' \<notin> set (showNat n)"
  using showNat_digits isDigit_plain by blast

lemma splitOn_dottedQuad:
  "splitOn CHR ''.'' (dottedQuad a b c d) = [showNat a, showNat b, showNat c, showNat d]"
  by (simp add: dottedQuad_def splitOn_append splitOn_no_sep dot_notin_showNat)

lemma dottedQuad_loopback:
  "dottedQuad a b c d = ''127.0.0.1'' \<longleftrightarrow> a = 127 \<and> b = 0 \<and> c = 0 \<and> d = 1"
proof
  assume e: "dottedQuad a b c d = ''127.0.0.1''"
  have "splitOn CHR ''.'' (dottedQuad a b c d) = [''127'', ''0'', ''0'', ''1'']"
    unfolding e by simp
  then have p: "showNat a = ''127''" "showNat b = ''0''" "showNat c = ''0''" "showNat d = ''1''"
    by (simp_all add: splitOn_dottedQuad)
  have v: "digitsVal ''127'' = 127" "digitsVal ''0'' = 0" "digitsVal ''1'' = 1"
    by (simp_all add: digitsVal_def digitVal_def)
  from p v digitsVal_showNat [of a] digitsVal_showNat [of b] digitsVal_showNat [of c]
    digitsVal_showNat [of d]
  show "a = 127 \<and> b = 0 \<and> c = 0 \<and> d = 1" by simp
next
  assume "a = 127 \<and> b = 0 \<and> c = 0 \<and> d = 1"
  then show "dottedQuad a b c d = ''127.0.0.1''"
    by (simp add: dottedQuad_def showNat.simps digitChar_def)
qed

lemma dottedQuad_not_v6: "dottedQuad a b c d \<noteq> ''::1''"
proof
  assume e: "dottedQuad a b c d = ''::1''"
  have "splitOn CHR ''.'' (dottedQuad a b c d) = [''::1'']"
    unfolding e by simp
  then show False by (simp add: splitOn_dottedQuad)
qed

lemma isInternalIP_octets:
  "isInternalIP (Str s) =
     Inr (s = ''127.0.0.1'' \<or> s = ''::1'' \<or>
          (length (splitOn CHR ''.'' s) = 4 \<and>
             (octet s 0 = Some 10
              \<or> (octet s 0 = Some 172 \<and> (\<exists>b. octet s 1 = Some b \<and> 16 \<le> b \<and> b \<le> 31))
              \<or> (octet s 0 = Some 192 \<and> octet s 1 = Some 168))))"
  by (auto simp: isInternalIP_def jsSplit_def octet_def Let_def split: option.splits)

lemma isInternalIP_dottedQuad:
  "isInternalIP (Str (dottedQuad a b c d)) =
     Inr (a = 10 \<or> (a = 172 \<and> 16 \<le> b \<and> b \<le> 31) \<or> (a = 192 \<and> b = 168)
          \<or> (a = 127 \<and> b = 0 \<and> c = 0 \<and> d = 1))"
proof -
  have ne: "dottedQuad a b c d \<noteq> []"
    using showNat_nonempty [of a] by (simp add: dottedQuad_def)
  show ?thesis
    using ne dottedQuad_loopback [of a b c d] dottedQuad_not_v6 [of a b c d]
    by (auto simp: isInternalIP_def jsSplit_def splitOn_dottedQuad parseInt_showNat Let_def)
qed

lemma isInternalIP_examples:
  "isInternalIP (Str ''10.0.0.1'') = Inr True
     \<and> isInternalIP (Str ''172.16.0.5'') = Inr True
     \<and> isInternalIP (Str ''192.168.1.1'') = Inr True
     \<and> isInternalIP (Str ''127.0.0.1'') = Inr True
     \<and> isInternalIP (Str ''172.32.0.5'') = Inr False
     \<and> isInternalIP (Str ''8.8.8.8'') = Inr False
     \<and> isInternalIP (Str '''') = Inr False
     \<and> isInternalIP (Str ''fd00::1'') = Inr False"
  by (simp add: isInternalIP_def jsSplit_def parseInt_def isWhiteSpace_def isDigit_def
      digitVal_def digitsVal_def)

section \<open>Loops\<close>

lemma fold_id: "(\<And>x s. f x s = s) \<Longrightarrow> fold f xs s = s"
  by (induction xs) auto

lemma forEach_skip: "(\<And>x s. f x s = (s, None)) \<Longrightarrow> forEach f xs s = (s, None)"
  by (induction xs) auto

lemma generate_clear:
  "sysmon_generateVisualizationData clearParsedData = Inr emptyVisualization"
  "elk_generateVisualizationData clearParsedData = Inr emptyVisualization"
  "defender_generateVisualizationData clearParsedData = Inr emptyVisualization"
  "wazuh_generateVisualizationData clearParsedData = Inr emptyVisualization"
  by (simp_all add: sysmon_generateVisualizationData_def elk_generateVisualizationData_def
      defender_generateVisualizationData_def wazuh_generateVisualizationData_def
      clearParsedData_def pushThreatIndicators_def emptyVisualization_def setDnsQueries_def)

lemma forEach_single: "forEach f [x] s = f x s"
  by (simp split: prod.splits option.splits)

lemma elkEvents_non_array:
  "jsonParse rt content = Some v \<Longrightarrow> \<not> isArray v \<Longrightarrow> elkEvents rt content = Some [v]"
  by (cases v) (simp_all add: elkEvents_def)

lemma sample_parse:
  "jsonParse (sampleRuntime now) networkObjectFile = Some networkEvent"
  "jsonParse (sampleRuntime now) networkArrayFile = Some (Arr [networkEvent])"
  by (simp_all add: sampleRuntime_def sampleJSON_def networkObjectFile_def networkArrayFile_def)

section \<open>What each step changes\<close>

lemma thenDo_frame: "(\<And>s. g (fst (f s)) = g s) \<Longrightarrow> g (fst (thenDo r f)) = g (fst r)"
  by (cases r; cases "snd r") (auto simp: thenDo_def)

lemma thenDo_skip: "(\<And>s. f s = (s, None)) \<Longrightarrow> thenDo r f = r"
  by (cases r; cases "snd r") (auto simp: thenDo_def)

lemma orNow_frame:
  "processes (snd (orNow rt v st)) = processes st"
  "networkConnections (snd (orNow rt v st)) = networkConnections st"
  "fileActivities (snd (orNow rt v st)) = fileActivities st"
  "registryChanges (snd (orNow rt v st)) = registryChanges st"
  "threats (snd (orNow rt v st)) = threats st"
  "dnsQueries (snd (orNow rt v st)) = dnsQueries st"
  by (simp_all add: orNow_def)

lemma genericProcess_frame:
  "networkConnections (fst (genericProcess ev ts st)) = networkConnections st"
  "fileActivities (fst (genericProcess ev ts st)) = fileActivities st"
  "registryChanges (fst (genericProcess ev ts st)) = registryChanges st"
  "threats (fst (genericProcess ev ts st)) = threats st"
  "dnsQueries (fst (genericProcess ev ts st)) = dnsQueries st"
  by (simp_all add: genericProcess_def Let_def split: sum.splits)

lemma genericNetwork_frame:
  "processes (fst (genericNetwork ev ts st)) = processes st"
  "fileActivities (fst (genericNetwork ev ts st)) = fileActivities st"
  "registryChanges (fst (genericNetwork ev ts st)) = registryChanges st"
  "threats (fst (genericNetwork ev ts st)) = threats st"
  "dnsQueries (fst (genericNetwork ev ts st)) = dnsQueries st"
  by (simp_all add: genericNetwork_def Let_def split: sum.splits)

lemma genericFile_frame:
  "processes (fst (genericFile ev ts st)) = processes st"
  "networkConnections (fst (genericFile ev ts st)) = networkConnections st"
  "registryChanges (fst (genericFile ev ts st)) = registryChanges st"
  "threats (fst (genericFile ev ts st)) = threats st"
  "dnsQueries (fst (genericFile ev ts st)) = dnsQueries st"
  by (simp_all add: genericFile_def Let_def split: sum.splits)

lemma genericDns_frame:
  "processes (fst (genericDns ev ts st)) = processes st"
  "networkConnections (fst (genericDns ev ts st)) = networkConnections st"
  "fileActivities (fst (genericDns ev ts st)) = fileActivities st"
  "registryChanges (fst (genericDns ev ts st)) = registryChanges st"
  "threats (fst (genericDns ev ts st)) = threats st"
  by (simp_all add: genericDns_def Let_def split: sum.splits)

lemmas generic_frame = genericProcess_frame genericNetwork_frame genericFile_frame genericDns_frame

lemma generic_skip:
  "\<not> (truthy (elk_processImage ev) \<and> truthy (elk_processId ev)) \<Longrightarrow> genericProcess ev ts st = (st, None)"
  "\<not> truthy (elk_destIp ev) \<Longrightarrow> genericNetwork ev ts st = (st, None)"
  "\<not> truthy (elk_filePath ev) \<Longrightarrow> genericFile ev ts st = (st, None)"
  "\<not> truthy (elk_dnsQuery ev) \<Longrightarrow> genericDns ev ts st = (st, None)"
  by (auto simp: genericProcess_def genericNetwork_def genericFile_def genericDns_def Let_def
      elk_processImage_def elk_processId_def elk_destIp_def elk_filePath_def elk_dnsQuery_def)

lemma elk_discriminants:
  "\<not> (truthy (elk_processImage ev) \<and> truthy (elk_processId ev)) \<Longrightarrow>
     processes (fst (processGenericEvent rt ev st)) = processes st"
  "\<not> truthy (elk_destIp ev) \<Longrightarrow>
     networkConnections (fst (processGenericEvent rt ev st)) = networkConnections st"
  "\<not> truthy (elk_filePath ev) \<Longrightarrow>
     fileActivities (fst (processGenericEvent rt ev st)) = fileActivities st"
  "\<not> truthy (elk_dnsQuery ev) \<Longrightarrow>
     dnsQueries (fst (processGenericEvent rt ev st)) = dnsQueries st"
  using orNow_frame [of rt "jsOr (get ev ''@timestamp'') (get ev ''UtcTime'')" st]
  by (simp_all add: processGenericEvent_def split_def Let_def
      thenDo_frame [where g = processes] thenDo_frame [where g = networkConnections]
      thenDo_frame [where g = fileActivities] thenDo_frame [where g = dnsQueries]
      generic_frame thenDo_skip generic_skip)

lemma wazuh_frame:
  "processes (fst (wazuhThreat rt alert ts st)) = processes st"
  "networkConnections (fst (wazuhThreat rt alert ts st)) = networkConnections st"
  "fileActivities (fst (wazuhThreat rt alert ts st)) = fileActivities st"
  "dnsQueries (fst (wazuhThreat rt alert ts st)) = dnsQueries st"
  "processes (fst (wazuhFim alert ts st)) = processes st"
  "networkConnections (fst (wazuhFim alert ts st)) = networkConnections st"
  "threats (fst (wazuhFim alert ts st)) = threats st"
  "dnsQueries (fst (wazuhFim alert ts st)) = dnsQueries st"
  by (simp_all add: wazuhThreat_def wazuhFim_def Let_def split: sum.splits)

lemma wazuh_skip:
  "\<not> (truthy (get (wazuh_rule alert) ''id'') \<and> truthy (get (wazuh_rule alert) ''description'')) \<Longrightarrow>
     wazuhThreat rt alert ts st = (st, None)"
  "\<not> (truthy (get (wazuh_auditEvent alert) ''file'') \<and> truthy (get (wazuh_auditEvent alert) ''action'')) \<Longrightarrow>
     wazuhFim alert ts st = (st, None)"
  by (auto simp: wazuhThreat_def wazuhFim_def Let_def wazuh_rule_def wazuh_auditEvent_def)

lemma wazuh_discriminants:
  "\<not> (truthy (get (wazuh_rule alert) ''id'') \<and> truthy (get (wazuh_rule alert) ''description'')) \<Longrightarrow>
     threats (fst (wazuhAlert rt alert st)) = threats st"
  "\<not> (truthy (get (wazuh_auditEvent alert) ''file'') \<and> truthy (get (wazuh_auditEvent alert) ''action'')) \<Longrightarrow>
     fileActivities (fst (wazuhAlert rt alert st)) = fileActivities st"
  using orNow_frame [of rt "get alert ''timestamp''" st]
  by (simp_all add: wazuhAlert_def split_def Let_def thenDo_frame [where g = threats]
      thenDo_skip wazuh_frame wazuh_skip)

lemma sysmon_handler_frame:
  "processes (fst (processNetworkConnection rt ev st)) = processes st"
  "processes (fst (processFileActivity rt ev st)) = processes st"
  "processes (fst (processDnsQuery rt ev st)) = processes st"
  "networkConnections (fst (processProcessCreation rt ev st)) = networkConnections st"
  "networkConnections (fst (processFileActivity rt ev st)) = networkConnections st"
  "networkConnections (fst (processDnsQuery rt ev st)) = networkConnections st"
  "fileActivities (fst (processProcessCreation rt ev st)) = fileActivities st"
  "fileActivities (fst (processNetworkConnection rt ev st)) = fileActivities st"
  "fileActivities (fst (processDnsQuery rt ev st)) = fileActivities st"
  "dnsQueries (fst (processProcessCreation rt ev st)) = dnsQueries st"
  "dnsQueries (fst (processNetworkConnection rt ev st)) = dnsQueries st"
  "dnsQueries (fst (processFileActivity rt ev st)) = dnsQueries st"
  by (simp_all add: processProcessCreation_def processNetworkConnection_def
      processFileActivity_def processDnsQuery_def orNow_def split: sum.splits)

lemma sysmon_discriminants:
  "get ev ''EventID'' \<noteq> Num 1 \<Longrightarrow> processes (fst (processSysmonEvent rt ev st)) = processes st"
  "get ev ''EventID'' \<noteq> Num 3 \<Longrightarrow>
     networkConnections (fst (processSysmonEvent rt ev st)) = networkConnections st"
  "get ev ''EventID'' \<noteq> Num 11 \<and> get ev ''EventID'' \<noteq> Num 23 \<and> get ev ''EventID'' \<noteq> Num 15 \<Longrightarrow>
     fileActivities (fst (processSysmonEvent rt ev st)) = fileActivities st"
  "get ev ''EventID'' \<noteq> Num 22 \<Longrightarrow> dnsQueries (fst (processSysmonEvent rt ev st)) = dnsQueries st"
  by (simp_all add: processSysmonEvent_def sysmon_handler_frame)

lemma sysmon_network_always:
  "get ev ''EventID'' = Num 3 \<Longrightarrow> sysmonProcessName ev = Inr name \<Longrightarrow>
     \<exists>r. networkConnections (fst (processSysmonEvent rt ev st)) = networkConnections st @ [r]
         \<and> field r ''destinationIp'' = get ev ''DestinationIp''"
  by (cases ev) (simp_all add: processSysmonEvent_def processNetworkConnection_def nullish_def
      orNow_def field_def)

lemma defender_discriminants:
  "get ev ''EventType'' \<noteq> Str ''ProcessCreated'' \<Longrightarrow>
     processes (fst (defenderEvent rt ev st)) = processes st"
  "get ev ''EventType'' \<noteq> Str ''NetworkConnection'' \<Longrightarrow>
     networkConnections (fst (defenderEvent rt ev st)) = networkConnections st"
  "get ev ''EventType'' \<noteq> Str ''FileCreated'' \<and> get ev ''EventType'' \<noteq> Str ''FileDeleted'' \<Longrightarrow>
     fileActivities (fst (defenderEvent rt ev st)) = fileActivities st"
  "get ev ''EventType'' \<noteq> Str ''DnsQuery'' \<Longrightarrow>
     dnsQueries (fst (defenderEvent rt ev st)) = dnsQueries st"
  "get ev ''EventType'' \<noteq> Str ''Detection'' \<Longrightarrow>
     threats (fst (defenderEvent rt ev st)) = threats st"
  "get ev ''EventType'' \<noteq> Str ''RegistryValueSet'' \<Longrightarrow>
     registryChanges (fst (defenderEvent rt ev st)) = registryChanges st"
  by (simp_all add: defenderEvent_def orNow_def Let_def)

lemma defender_network_always:
  "get ev ''EventType'' = Str ''NetworkConnection'' \<Longrightarrow>
     \<exists>r. networkConnections (fst (defenderEvent rt ev st)) = networkConnections st @ [r]
         \<and> field r ''destinationIp'' = get ev ''DestinationIp''"
  by (cases ev) (simp_all add: defenderEvent_def nullish_def orNow_def field_def Let_def)

section \<open>The loops of the detector\<close>

lemma bindE_eq_Inr: "(bindE m f = Inr y) = (\<exists>x. m = Inr x \<and> f x = Inr y)"
  by (cases m) auto

lemma forEachE_invariant:
  assumes step: "\<And>x s s'. P s \<Longrightarrow> f x s = Inr s' \<Longrightarrow> P s'"
  shows "P s \<Longrightarrow> forEachE f xs s = Inr s' \<Longrightarrow> P s'"
proof (induction xs arbitrary: s)
  case Nil
  then show ?case by simp
next
  case (Cons x xs)
  from Cons.prems(2) obtain s1 where s1: "f x s = Inr s1" and rest: "forEachE f xs s1 = Inr s'"
    by (auto simp: bindE_eq_Inr)
  from step [OF Cons.prems(1) s1] have "P s1" .
  from Cons.IH [OF this rest] show ?case .
qed

lemma push_simps [simp]:
  "threatIndicators (aptPatterns (pushThreatIndicator x v)) = threatIndicators (aptPatterns v) @ [x]"
  "attackChain (aptPatterns (pushThreatIndicator x v)) = attackChain (aptPatterns v)"
  "fileMap (pushThreatIndicator x v) = fileMap v"
  "networkMap (pushThreatIndicator x v) = networkMap v"
  "threatIndicators (aptPatterns (pushThreatIndicators xs v)) = threatIndicators (aptPatterns v) @ xs"
  "attackChain (aptPatterns (pushThreatIndicators xs v)) = attackChain (aptPatterns v)"
  "fileMap (pushThreatIndicators xs v) = fileMap v"
  "networkMap (pushThreatIndicators xs v) = networkMap v"
  "threatIndicators (aptPatterns (pushAttackChain e v)) = threatIndicators (aptPatterns v)"
  "attackChain (aptPatterns (pushAttackChain e v)) = attackChain (aptPatterns v) @ [e]"
  "fileMap (pushAttackChain e v) = fileMap v"
  "networkMap (pushAttackChain e v) = networkMap v"
  "aptPatterns (pushFileActivity r v) = aptPatterns v"
  "fileMap.fileActivities (fileMap (pushFileActivity r v)) = fileMap.fileActivities (fileMap v) @ [r]"
  "networkMap (pushFileActivity r v) = networkMap v"
  "aptPatterns (pushConnection r v) = aptPatterns v"
  "fileMap (pushConnection r v) = fileMap v"
  "connections (networkMap (pushConnection r v)) = connections (networkMap v) @ [r]"
  "networkMap.dnsQueries (networkMap (pushConnection r v)) = networkMap.dnsQueries (networkMap v)"
  "aptPatterns (setDnsQueries rs v) = aptPatterns v"
  "fileMap (setDnsQueries rs v) = fileMap v"
  "connections (networkMap (setDnsQueries rs v)) = connections (networkMap v)"
  "networkMap.dnsQueries (networkMap (setDnsQueries rs v)) = rs"
  by (simp_all add: pushThreatIndicator_def pushThreatIndicators_def pushAttackChain_def
      pushFileActivity_def pushConnection_def setDnsQueries_def)

lemma showInt_int [simp]: "showInt (int n) = showNat n"
  by (simp add: showInt_def)

lemma startsWith_append [simp]: "startsWith (p @ q) (p @ q') = startsWith q q'"
  by (induction p) auto

lemma numbered_snoc:
  "numbered n (es @ [e]) = (numbered n es \<and> startsWith e (showNat (n + length es) @ ''. ''))"
  by (induction es arbitrary: n) auto

lemma chainInv_push:
  "chainInv (v, step) \<Longrightarrow> startsWith e (showNat step @ ''. '') \<Longrightarrow>
     chainInv (pushAttackChain e (pushThreatIndicator x v), Suc step)"
  by (simp add: chainInv_def numbered_snoc)

lemma chainInv_keep:
  "chainInv (v, step) \<Longrightarrow> aptPatterns v' = aptPatterns v \<Longrightarrow> chainInv (v', step)"
  by (simp add: chainInv_def)

lemma template_Cons_Inr:
  "(template (x # xs) = Inr r) = (\<exists>a b. toStr x = Inr a \<and> template xs = Inr b \<and> r = a @ b)"
  by (auto simp: bindE_eq_Inr)

lemma report_Inr:
  "(report ips eps (v, step) = Inr s') =
     (\<exists>indicator rest. template ips = Inr indicator \<and> template eps = Inr rest
        \<and> s' = (pushAttackChain (showNat step @ rest) (pushThreatIndicator (Str indicator) v),
                 Suc step))"
  by (auto simp: report_def bindE_eq_Inr)

lemma report_chain:
  "report ips (Str (CHR ''.'' # CHR '' '' # t) # eps) (v, step) = Inr s' \<Longrightarrow> chainInv (v, step) \<Longrightarrow>
     chainInv s'"
  by (auto simp: report_Inr bindE_eq_Inr intro!: chainInv_push)

lemma chainInv_push_record [simp]:
  "chainInv (pushConnection r v, n) = chainInv (v, n)"
  "chainInv (pushFileActivity r v, n) = chainInv (v, n)"
  by (simp_all add: chainInv_def)

lemma step_chain:
  "chainInv s \<Longrightarrow> sysmon_connection conn s = Inr s' \<Longrightarrow> chainInv s'"
  "chainInv s \<Longrightarrow> sysmon_file file s = Inr s' \<Longrightarrow> chainInv s'"
  "chainInv s \<Longrightarrow> c2_connection conn s = Inr s' \<Longrightarrow> chainInv s'"
  "chainInv s \<Longrightarrow> defender_file file s = Inr s' \<Longrightarrow> chainInv s'"
  "chainInv s \<Longrightarrow> plain_file file s = Inr s' \<Longrightarrow> chainInv s'"
  "chainInv s \<Longrightarrow> plain_connection conn s = Inr s' \<Longrightarrow> chainInv s'"
  by (cases s; auto simp: sysmon_connection_def sysmon_file_def c2_connection_def
      defender_file_def plain_file_def plain_connection_def Let_def bindE_eq_Inr
      split: if_splits dest: report_chain)+

lemma wazuh_threat_chain:
  "chainInv s \<Longrightarrow> wazuh_threat t s = Inr s' \<Longrightarrow> chainInv s'"
  by (cases s) (auto simp: wazuh_threat_def bindE_eq_Inr intro!: chainInv_push)

lemma chainInv_start: "chainInv (emptyVisualization, 1)"
  by (simp add: chainInv_def emptyVisualization_def)

lemma loop_chain:
  "chainInv s \<Longrightarrow> forEachE sysmon_connection xs s = Inr s' \<Longrightarrow> chainInv s'"
  "chainInv s \<Longrightarrow> forEachE sysmon_file xs s = Inr s' \<Longrightarrow> chainInv s'"
  "chainInv s \<Longrightarrow> forEachE c2_connection xs s = Inr s' \<Longrightarrow> chainInv s'"
  "chainInv s \<Longrightarrow> forEachE defender_file xs s = Inr s' \<Longrightarrow> chainInv s'"
  "chainInv s \<Longrightarrow> forEachE plain_file xs s = Inr s' \<Longrightarrow> chainInv s'"
  "chainInv s \<Longrightarrow> forEachE plain_connection xs s = Inr s' \<Longrightarrow> chainInv s'"
  "chainInv s \<Longrightarrow> forEachE wazuh_threat xs s = Inr s' \<Longrightarrow> chainInv s'"
  by (induction xs arbitrary: s; auto simp: bindE_eq_Inr dest: step_chain wazuh_threat_chain)+

lemma generate_numbered:
  "sysmon_generateVisualizationData pd = Inr v \<Longrightarrow> numbered 1 (attackChain (aptPatterns v))"
  "elk_generateVisualizationData pd = Inr v \<Longrightarrow> numbered 1 (attackChain (aptPatterns v))"
  "defender_generateVisualizationData pd = Inr v \<Longrightarrow> numbered 1 (attackChain (aptPatterns v))"
  "wazuh_generateVisualizationData pd = Inr v \<Longrightarrow> numbered 1 (attackChain (aptPatterns v))"
proof -
  show "numbered 1 (attackChain (aptPatterns v))" if "sysmon_generateVisualizationData pd = Inr v"
  proof -
    from that obtain s1 w n where
      "forEachE sysmon_connection (networkConnections pd) (emptyVisualization, 1) = Inr s1"
      "forEachE sysmon_file (fileActivities pd) s1 = Inr (w, n)"
      "v = setDnsQueries (map dnsWithProcess (dnsQueries pd)) w"
      by (auto simp: sysmon_generateVisualizationData_def bindE_eq_Inr)
    moreover from this have "chainInv (w, n)"
      using chainInv_start loop_chain(1,2) by blast
    ultimately show ?thesis by (simp add: chainInv_def)
  qed
  show "numbered 1 (attackChain (aptPatterns v))" if "elk_generateVisualizationData pd = Inr v"
  proof -
    from that obtain s1 w n where
      "forEachE c2_connection (networkConnections pd) (emptyVisualization, 1) = Inr s1"
      "forEachE plain_file (fileActivities pd) s1 = Inr (w, n)"
      "v = setDnsQueries (map dnsWithProcess (dnsQueries pd)) w"
      by (auto simp: elk_generateVisualizationData_def bindE_eq_Inr)
    moreover from this have "chainInv (w, n)"
      using chainInv_start loop_chain(3,5) by blast
    ultimately show ?thesis by (simp add: chainInv_def)
  qed
  show "numbered 1 (attackChain (aptPatterns v))" if "defender_generateVisualizationData pd = Inr v"
  proof -
    from that obtain s1 w n where
      "forEachE c2_connection (networkConnections pd) (emptyVisualization, 1) = Inr s1"
      "forEachE defender_file (fileActivities pd) s1 = Inr (w, n)"
      "v = setDnsQueries (map dnsWithProcess (dnsQueries pd))
             (pushThreatIndicators (map threatIndicator (threats pd)) w)"
      by (auto simp: defender_generateVisualizationData_def bindE_eq_Inr)
    moreover from this have "chainInv (w, n)"
      using chainInv_start loop_chain(3,4) by blast
    ultimately show ?thesis by (simp add: chainInv_def)
  qed
  show "numbered 1 (attackChain (aptPatterns v))" if "wazuh_generateVisualizationData pd = Inr v"
  proof -
    from that obtain s1 s2 w n where
      "forEachE wazuh_threat (threats pd) (emptyVisualization, 1) = Inr s1"
      "forEachE plain_file (fileActivities pd) s1 = Inr s2"
      "forEachE plain_connection (networkConnections pd) s2 = Inr (w, n)"
      "v = setDnsQueries (map dnsWithProcess (dnsQueries pd)) w"
      by (auto simp: wazuh_generateVisualizationData_def bindE_eq_Inr)
    moreover from this have "chainInv (w, n)"
      using chainInv_start loop_chain(5,6,7) by blast
    ultimately show ?thesis by (simp add: chainInv_def)
  qed
qed

lemma parseLogs_numbered:
  "sysmon_parseLogs rt files format before = Inr v \<Longrightarrow> numbered 1 (attackChain (aptPatterns v))"
  "elk_parseLogs rt files format before = Inr v \<Longrightarrow> numbered 1 (attackChain (aptPatterns v))"
  "defender_parseLogs rt files format before = Inr v \<Longrightarrow> numbered 1 (attackChain (aptPatterns v))"
  "wazuh_parseLogs rt files format before = Inr v \<Longrightarrow> numbered 1 (attackChain (aptPatterns v))"
  by (auto simp: sysmon_parseLogs_def elk_parseLogs_def defender_parseLogs_def wazuh_parseLogs_def
      split: prod.splits option.splits dest: generate_numbered)

section \<open>Native threats\<close>

lemma forEach_frame: "(\<And>x s. g (fst (f x s)) = g s) \<Longrightarrow> g (fst (forEach f xs s)) = g s"
proof (induction xs arbitrary: s)
  case Nil
  then show ?case by simp
next
  case (Cons x xs)
  obtain s1 e where r: "f x s = (s1, e)" by (cases "f x s")
  from Cons.prems [of x s] r have g1: "g s1 = g s" by simp
  show ?case
  proof (cases e)
    case None
    with r Cons.IH [OF Cons.prems, of s1] g1 show ?thesis by simp
  next
    case (Some a)
    with r g1 show ?thesis by simp
  qed
qed

lemma fold_frame: "(\<And>x s. g (f x s) = g s) \<Longrightarrow> g (fold f xs s) = g s"
  by (induction xs arbitrary: s) auto

lemma sysmon_threats_frame: "threats (fst (processSysmonEvent rt ev st)) = threats st"
  by (simp add: processSysmonEvent_def processProcessCreation_def processNetworkConnection_def
      processFileActivity_def processDnsQuery_def orNow_def split: sum.splits)

lemma sysmon_no_threats:
  "threats (sysmon_parseFiles rt files format) = []"
proof -
  have "threats (sysmon_parseByFormat rt content format st) = threats st" for content st
    by (simp add: sysmon_parseByFormat_def parseSysmonLogs_def
        forEach_frame [where g = threats] sysmon_threats_frame
        split: option.splits jsval.splits)
  then have "threats (sysmon_parseFiles rt files format)
             = threats clearParsedData"
    unfolding sysmon_parseFiles_def by (rule fold_frame)
  then show ?thesis by (simp add: clearParsedData_def)
qed

lemma elk_threats_frame: "threats (fst (elkLog rt log st)) = threats st"
  using orNow_frame(5) [of rt "jsOr (get (jsOr (get log ''_source'') log) ''@timestamp'')
      (get (jsOr (get log ''_source'') log) ''UtcTime'')" st]
  by (simp add: elkLog_def processGenericEvent_def split_def Let_def
      thenDo_frame [where g = threats] generic_frame)

lemma elk_no_threats:
  "threats (fst (elk_parseFiles rt files format)) = []"
proof -
  have "threats (fst (elk_parseByFormat rt content format st)) = threats st" for content st
    by (simp add: elk_parseByFormat_def parseELKLogs_def
        forEach_frame [where g = threats] elk_threats_frame split: option.splits)
  then have "threats (fst (elk_parseFiles rt files format))
             = threats clearParsedData"
    unfolding elk_parseFiles_def by (rule forEach_frame)
  then show ?thesis by (simp add: clearParsedData_def)
qed

lemma wazuh_threat_Inr:
  "(wazuh_threat t (v, step) = Inr s') =
     (\<exists>entry. wazuhEntry step t = Inr entry
        \<and> s' = (pushAttackChain entry (pushThreatIndicator (threatIndicator t) v), Suc step))"
  unfolding wazuh_threat_def wazuhEntry_def by (auto simp: bindE_eq_Inr)

lemma wazuh_threat_loop:
  "forEachE wazuh_threat ts (v, step) = Inr (v', step') \<Longrightarrow>
     threatIndicators (aptPatterns v') = threatIndicators (aptPatterns v) @ map threatIndicator ts
     \<and> map Inr (attackChain (aptPatterns v'))
         = map Inr (attackChain (aptPatterns v)) @ map2 wazuhEntry [step..<step + length ts] ts
     \<and> step' = step + length ts"
proof (induction ts arbitrary: v step)
  case Nil
  then show ?case by simp
next
  case (Cons t ts)
  from Cons.prems obtain s1 where
    s1: "wazuh_threat t (v, step) = Inr s1" and r: "forEachE wazuh_threat ts s1 = Inr (v', step')"
    by (auto simp: bindE_eq_Inr)
  from s1 obtain entry where
    e: "wazuhEntry step t = Inr entry"
    and s1': "s1 = (pushAttackChain entry (pushThreatIndicator (threatIndicator t) v), Suc step)"
    by (auto simp: wazuh_threat_Inr)
  have u: "[step..<step + length (t # ts)] = step # [Suc step..<Suc step + length ts]"
    by (subst upt_rec) simp
  from Cons.IH [OF r [unfolded s1']] e show ?case
    unfolding u by simp
qed

lemma plain_file_Inr:
  "plain_file file s = Inr s' \<Longrightarrow> aptPatterns (fst s') = aptPatterns (fst s) \<and> snd s' = snd s"
  by (cases s) (auto simp: plain_file_def Let_def)

lemma plain_connection_Inr:
  "plain_connection conn s = Inr s' \<Longrightarrow> aptPatterns (fst s') = aptPatterns (fst s) \<and> snd s' = snd s"
  by (cases s) (auto simp: plain_connection_def Let_def)

lemma plain_file_loop:
  "forEachE plain_file fs s = Inr s' \<Longrightarrow> aptPatterns (fst s') = aptPatterns (fst s) \<and> snd s' = snd s"
proof (induction fs arbitrary: s)
  case Nil
  then show ?case by simp
next
  case (Cons f fs)
  from Cons.prems obtain s1 where
    "plain_file f s = Inr s1" "forEachE plain_file fs s1 = Inr s'"
    by (auto simp: bindE_eq_Inr)
  with Cons.IH [of s1] plain_file_Inr [of f s s1] show ?case by simp
qed

lemma plain_connection_loop:
  "forEachE plain_connection cs s = Inr s' \<Longrightarrow> aptPatterns (fst s') = aptPatterns (fst s) \<and> snd s' = snd s"
proof (induction cs arbitrary: s)
  case Nil
  then show ?case by simp
next
  case (Cons c cs)
  from Cons.prems obtain s1 where
    "plain_connection c s = Inr s1" "forEachE plain_connection cs s1 = Inr s'"
    by (auto simp: bindE_eq_Inr)
  with Cons.IH [of s1] plain_connection_Inr [of c s s1] show ?case by simp
qed

lemma wazuh_generate_threats:
  assumes "wazuh_generateVisualizationData pd = Inr v"
  shows "threatIndicators (aptPatterns v) = map threatIndicator (threats pd)
         \<and> map Inr (attackChain (aptPatterns v))
             = map2 wazuhEntry [1..<Suc (length (threats pd))] (threats pd)"
proof -
  from assms obtain v1 n1 s2 w n where
    l1: "forEachE wazuh_threat (threats pd) (emptyVisualization, 1) = Inr (v1, n1)"
    and l2: "forEachE plain_file (fileActivities pd) (v1, n1) = Inr s2"
    and l3: "forEachE plain_connection (networkConnections pd) s2 = Inr (w, n)"
    and v: "v = setDnsQueries (map dnsWithProcess (dnsQueries pd)) w"
    by (auto simp: wazuh_generateVisualizationData_def bindE_eq_Inr)
  from plain_file_loop [OF l2] plain_connection_loop [OF l3] have "aptPatterns w = aptPatterns v1"
    by simp
  with wazuh_threat_loop [OF l1] v show ?thesis
    by (simp add: emptyVisualization_def)
qed

lemma defender_generate_threats:
  assumes "defender_generateVisualizationData pd = Inr v"
  shows "\<exists>w. defender_generateVisualizationData (pd\<lparr>threats := []\<rparr>) = Inr w
           \<and> threatIndicators (aptPatterns v)
               = threatIndicators (aptPatterns w) @ map threatIndicator (threats pd)
           \<and> attackChain (aptPatterns v) = attackChain (aptPatterns w)"
  using assms
  by (auto simp: defender_generateVisualizationData_def bindE_eq_Inr pushThreatIndicators_def)

section \<open>The command-and-control rule\<close>

lemma c2_step:
  assumes "isInternalIP (field conn ''destinationIp'') = Inr False"
    and "toStr (field conn ''destinationIp'') = Inr ip"
    and "toStr (field conn ''destinationPort'') = Inr port"
    and "toStr (jsOr (field conn ''processName'') (Str ''N/A'')) = Inr name"
  shows "sysmon_connection conn (v, step) =
           Inr (pushConnection (setProp conn ''process'' (jsOr (field conn ''processName'') (Str ''N/A'')))
                  (pushAttackChain (c2Entry step ip port name)
                     (pushThreatIndicator (Str (c2Indicator ip port name)) v)), Suc step)"
    and "c2_connection conn (v, step) =
           Inr (pushConnection (setProp conn ''process'' (jsOr (field conn ''processName'') (Str ''N/A'')))
                  (pushAttackChain (c2Entry step ip port name)
                     (pushThreatIndicator (Str (c2Indicator ip port name)) v)), Suc step)"
  using assms
  by (simp_all add: sysmon_connection_def c2_connection_def report_def Let_def c2Entry_def
      c2Indicator_def)

lemma dropWhile_showNat: "\<not> isDigit c \<Longrightarrow> dropWhile isDigit (showNat n @ c # r) = c # r"
  using showNat_digits [of _ n] by (simp add: dropWhile_append3)

lemma template_Str: "(template (Str a # xs) = Inr r) = (\<exists>b. template xs = Inr b \<and> r = a @ b)"
  by (auto simp: bindE_eq_Inr)

lemma report_count:
  "report (Str a # ips) (Str (CHR ''.'' # b) # eps) (v, step) = Inr (v', step') \<Longrightarrow>
     \<exists>x y. c2Count v' =
       (fst (c2Count v) + (if startsWith (a @ x) ''Command and Control Connection: '' then 1 else 0),
        snd (c2Count v)
          + (if startsWith (CHR ''.'' # b @ y) ''. Command and Control (C2): '' then 1 else 0))"
  by (auto simp: report_Inr bindE_eq_Inr c2Count_def isC2Indicator_def isC2Entry_def
      dropWhile_showNat isDigit_def digitVal_def)

lemma c2Count_push_record [simp]:
  "c2Count (pushConnection r v) = c2Count v"
  "c2Count (pushFileActivity r v) = c2Count v"
  "c2Count (setDnsQueries rs v) = c2Count v"
  by (simp_all add: c2Count_def)

lemma isInternalIP_cases:
  "isInternalIP d = Inr i \<Longrightarrow> (i \<and> isInternalIP d = Inr True) \<or> (\<not> i \<and> isInternalIP d = Inr False)"
  by auto

lemma connection_count:
  assumes "sysmon_connection conn (v, step) = Inr (v', step')
           \<or> c2_connection conn (v, step) = Inr (v', step')"
  shows "c2Count v' = (if notInternal conn then (Suc (fst (c2Count v)), Suc (snd (c2Count v)))
                       else c2Count v)"
proof -
  from assms obtain i where i: "isInternalIP (field conn ''destinationIp'') = Inr i"
    by (auto simp: sysmon_connection_def c2_connection_def Let_def bindE_eq_Inr)
  show ?thesis
  proof (cases i)
    case True
    with assms i show ?thesis
      by (auto simp: sysmon_connection_def c2_connection_def Let_def bindE_eq_Inr notInternal_def
          split: if_splits dest!: report_count)
  next
    case False
    with assms i show ?thesis
      by (auto simp: sysmon_connection_def c2_connection_def Let_def bindE_eq_Inr notInternal_def
          dest!: report_count)
  qed
qed

lemma file_count:
  assumes "sysmon_file file (v, step) = Inr (v', step')
           \<or> defender_file file (v, step) = Inr (v', step')
           \<or> plain_file file (v, step) = Inr (v', step')"
  shows "c2Count v' = c2Count v"
  using assms
  by (auto simp: sysmon_file_def defender_file_def plain_file_def Let_def bindE_eq_Inr
      split: if_splits dest!: report_count)

lemma connection_loop_count:
  "forEachE sysmon_connection cs (v, step) = Inr (v', step') \<Longrightarrow>
     c2Count v' = (fst (c2Count v) + length (filter notInternal cs),
                   snd (c2Count v) + length (filter notInternal cs))"
  "forEachE c2_connection cs (v, step) = Inr (v', step') \<Longrightarrow>
     c2Count v' = (fst (c2Count v) + length (filter notInternal cs),
                   snd (c2Count v) + length (filter notInternal cs))"
proof (induction cs arbitrary: v step)
  case Nil
  { case 1 then show ?case by simp }
  { case 2 then show ?case by simp }
next
  case (Cons c cs)
  { case 1
    then obtain v1 n1 where
      a: "sysmon_connection c (v, step) = Inr (v1, n1)"
      and b: "forEachE sysmon_connection cs (v1, n1) = Inr (v', step')"
      by (auto simp: bindE_eq_Inr)
    from connection_count [of c v step v1 n1] a Cons.IH(1) [OF b] show ?case by simp }
  { case 2
    then obtain v1 n1 where
      a: "c2_connection c (v, step) = Inr (v1, n1)"
      and b: "forEachE c2_connection cs (v1, n1) = Inr (v', step')"
      by (auto simp: bindE_eq_Inr)
    from connection_count [of c v step v1 n1] a Cons.IH(2) [OF b] show ?case by simp }
qed

lemma file_loop_count:
  "forEachE sysmon_file fs (v, step) = Inr (v', step') \<Longrightarrow> c2Count v' = c2Count v"
  "forEachE defender_file fs (v, step) = Inr (v', step') \<Longrightarrow> c2Count v' = c2Count v"
  "forEachE plain_file fs (v, step) = Inr (v', step') \<Longrightarrow> c2Count v' = c2Count v"
proof (induction fs arbitrary: v step)
  case Nil
  { case 1 then show ?case by simp }
  { case 2 then show ?case by simp }
  { case 3 then show ?case by simp }
next
  case (Cons f fs)
  { case 1
    then obtain v1 n1 where
      a: "sysmon_file f (v, step) = Inr (v1, n1)"
      and b: "forEachE sysmon_file fs (v1, n1) = Inr (v', step')"
      by (auto simp: bindE_eq_Inr)
    from file_count [of f v step v1 n1] a Cons.IH(1) [OF b] show ?case by simp }
  { case 2
    then obtain v1 n1 where
      a: "defender_file f (v, step) = Inr (v1, n1)"
      and b: "forEachE defender_file fs (v1, n1) = Inr (v', step')"
      by (auto simp: bindE_eq_Inr)
    from file_count [of f v step v1 n1] a Cons.IH(2) [OF b] show ?case by simp }
  { case 3
    then obtain v1 n1 where
      a: "plain_file f (v, step) = Inr (v1, n1)"
      and b: "forEachE plain_file fs (v1, n1) = Inr (v', step')"
      by (auto simp: bindE_eq_Inr)
    from file_count [of f v step v1 n1] a Cons.IH(3) [OF b] show ?case by simp }
qed

lemma c2Count_threats [simp]:
  "c2Count (pushThreatIndicators (map threatIndicator ts) v) = c2Count v"
  by (simp add: c2Count_def threatIndicator_def isC2Indicator_def comp_def)

lemma c2Count_empty [simp]: "c2Count emptyVisualization = (0, 0)"
  by (simp add: c2Count_def emptyVisualization_def)

lemma generate_count:
  assumes "sysmon_generateVisualizationData pd = Inr b
           \<or> elk_generateVisualizationData pd = Inr b
           \<or> defender_generateVisualizationData pd = Inr b"
  shows "c2Count b = (length (filter notInternal (networkConnections pd)),
                      length (filter notInternal (networkConnections pd)))"
  using assms
  by (auto simp: sysmon_generateVisualizationData_def elk_generateVisualizationData_def
      defender_generateVisualizationData_def bindE_eq_Inr
      dest!: connection_loop_count file_loop_count)

lemma wazuh_no_connections:
  "networkConnections (wazuh_parseFiles rt files format)
     = []"
proof -
  have a: "networkConnections (fst (wazuhAlert rt alert st)) = networkConnections st" for alert st
    using orNow_frame(2) [of rt "get alert ''timestamp''" st]
    by (simp add: wazuhAlert_def split_def Let_def thenDo_frame [where g = networkConnections]
        wazuh_frame)
  have "networkConnections (wazuh_parseByFormat rt content format st) = networkConnections st"
    for content st
    by (simp add: wazuh_parseByFormat_def parseWazuhLogs_def
        forEach_frame [where g = networkConnections] a split: option.splits jsval.splits)
  then have "networkConnections (wazuh_parseFiles rt files format) = networkConnections clearParsedData"
    unfolding wazuh_parseFiles_def by (rule fold_frame)
  then show ?thesis by (simp add: clearParsedData_def)
qed

lemma emptyVisualization_simps [simp]:
  "threatIndicators (aptPatterns emptyVisualization) = []"
  "attackChain (aptPatterns emptyVisualization) = []"
  "fileMap.fileActivities (fileMap emptyVisualization) = []"
  "connections (networkMap emptyVisualization) = []"
  "networkMap.dnsQueries (networkMap emptyVisualization) = []"
  by (simp_all add: emptyVisualization_def)

lemma public_address: "isInternalIP (Str ''203.0.113.5'') = Inr False"
  by code_simp

lemma scenario_A:
  assumes parse: "jsonParse rt content = Some (Arr [event])"
    and id: "get event ''EventID'' = Num 3"
    and ip: "get event ''DestinationIp'' = Str ''203.0.113.5''"
    and pn: "sysmonProcessName event = Inr processName"
    and port: "toStr (get event ''DestinationPort'') = Inr port"
    and name: "toStr (jsOr processName (Str ''N/A'')) = Inr name"
  shows "\<exists>b. sysmon_parseLogs rt [content] ''sysmon'' before = Inr b
           \<and> threatIndicators (aptPatterns b) = [Str (c2Indicator ''203.0.113.5'' port name)]
           \<and> attackChain (aptPatterns b) = [c2Entry 1 ''203.0.113.5'' port name]"
proof -
  from id have nn: "\<not> nullish event"
    by (auto simp: nullish_def)
  obtain ts st1 where o: "orNow rt (get event ''UtcTime'') clearParsedData = (ts, st1)"
    by (cases "orNow rt (get event ''UtcTime'') clearParsedData")
  then have st1: "networkConnections st1 = []" "fileActivities st1 = []" "dnsQueries st1 = []"
    by (auto simp: orNow_def clearParsedData_def split: if_splits)
  define conn where "conn =
    [(''timestamp'', ts), (''sourceIp'', get event ''SourceIp''),
     (''sourcePort'', get event ''SourcePort''), (''destinationIp'', get event ''DestinationIp''),
     (''destinationPort'', get event ''DestinationPort''), (''protocol'', get event ''Protocol''),
     (''processId'', get event ''ProcessId''), (''image'', get event ''Image''),
     (''user'', get event ''User''), (''processName'', processName)]"
  have parsed: "sysmon_parseFiles rt [content] ''sysmon''
                = st1\<lparr>networkConnections := [conn]\<rparr>"
    using parse id nn pn o st1
    by (simp add: sysmon_parseFiles_def sysmon_parseByFormat_def parseSysmonLogs_def
        processSysmonEvent_def processNetworkConnection_def conn_def)
  have f: "field conn ''destinationIp'' = Str ''203.0.113.5''"
    "field conn ''destinationPort'' = get event ''DestinationPort''"
    "field conn ''processName'' = processName"
    using ip by (simp_all add: conn_def field_def)
  have step: "sysmon_connection conn (emptyVisualization, 1) =
           Inr (pushConnection (setProp conn ''process'' (jsOr (field conn ''processName'') (Str ''N/A'')))
                  (pushAttackChain (c2Entry 1 ''203.0.113.5'' port name)
                     (pushThreatIndicator (Str (c2Indicator ''203.0.113.5'' port name))
                        emptyVisualization)), Suc 1)"
    by (rule c2_step(1)) (simp_all add: f public_address port name)
  show ?thesis
    unfolding sysmon_parseLogs_def parsed
    by (simp add: sysmon_generateVisualizationData_def st1 step del: One_nat_def)
qed

lemma startsWith_self: "startsWith (s @ b) s"
  by (induction s) auto

lemma contains_middle: "contains (a @ s @ b) s"
proof (induction a)
  case Nil
  show ?case by (cases "s @ b") (use startsWith_self [of s b] in auto)
next
  case (Cons x a)
  then show ?case by simp
qed

lemma c2_texts:
  "contains (c2Indicator ip port name) ip"
  "startsWith (c2Entry 1 ip port name) ''1. Command and Control (C2)''"
  using contains_middle [of "''Command and Control Connection: Outbound connection to C2 IP: ''" ip
      "'':'' @ port @ '' (Process: '' @ name @ '')''"]
  by (simp_all add: c2Indicator_def c2Entry_def showNat.simps digitChar_def)

section \<open>Process names\<close>

lemma last_splitOn: "last (splitOn c s) = rev (takeWhile (\<lambda>x. x \<noteq> c) (rev s))"
proof (induction s rule: length_induct)
  case (1 s)
  show ?case
  proof (cases "c \<in> set s")
    case False
    then have tw: "takeWhile (\<lambda>x. x \<noteq> c) (rev s) = rev s"
      by auto
    show ?thesis by (simp add: splitOn_no_sep [OF False] tw)
  next
    case True
    then obtain a t where s: "s = a @ c # t" and a: "c \<notin> set a"
      by (auto dest: split_list_first)
    have "last (splitOn c s) = last (splitOn c t)"
      using a splitOn_nonempty [of c t] by (simp add: s splitOn_append)
    also have "\<dots> = rev (takeWhile (\<lambda>x. x \<noteq> c) (rev t))"
      using "1.IH" s by simp
    also have "takeWhile (\<lambda>x. x \<noteq> c) (rev t) = takeWhile (\<lambda>x. x \<noteq> c) (rev s)"
      by (simp add: s takeWhile_append)
    finally show ?thesis .
  qed
qed

lemma takeWhile_twice: "takeWhile P (takeWhile Q xs) = takeWhile (\<lambda>x. Q x \<and> P x) xs"
  by (induction xs) auto

lemma elkProcessName_Str: "elkProcessName (Str s) = Inr (Str (finalSegment s))"
  by (simp add: elkProcessName_def jsSplit_def last_splitOn takeWhile_twice finalSegment_def)

lemma elkProcessName_Inr: "elkProcessName img = Inr name \<Longrightarrow> \<exists>s. img = Str s \<and> name = Str (finalSegment s)"
  by (cases img) (simp_all add: elkProcessName_Str, simp_all add: elkProcessName_def jsSplit_def)

lemma after_backslash:
  "CHR ''/'' \<notin> set s \<Longrightarrow> last (splitOn bs s) = finalSegment s"
proof -
  assume n: "CHR ''/'' \<notin> set s"
  have "takeWhile (\<lambda>c. c \<noteq> bs \<and> c \<noteq> CHR ''/'') (rev s) = takeWhile (\<lambda>c. c \<noteq> bs) (rev s)"
    using n by (intro takeWhile_cong) auto
  then show ?thesis by (simp add: last_splitOn finalSegment_def)
qed

lemma examples:
  "finalSegment windowsPath = ''cmd.exe''"
  "finalSegment ''/usr/bin/bash'' = ''bash''"
  "elkProcessNameOrNA (Str windowsPath) = Inr (Str ''cmd.exe'')"
  "elkProcessNameOrNA (Str ''/usr/bin/bash'') = Inr (Str ''bash'')"
  "elkProcessNameOrNA Undefined = Inr (Str ''N/A'')"
  by code_simp+

lemma forEach_invariant: "(\<And>x s. P s \<Longrightarrow> P (fst (f x s))) \<Longrightarrow> P s \<Longrightarrow> P (fst (forEach f xs s))"
proof (induction xs arbitrary: s)
  case Nil
  then show ?case by simp
next
  case (Cons x xs)
  obtain s1 e where r: "f x s = (s1, e)" by (cases "f x s")
  from Cons.prems(1) [OF Cons.prems(2), of x] r have p1: "P s1" by simp
  show ?case
  proof (cases e)
    case None
    with r Cons.IH [OF Cons.prems(1) p1] show ?thesis by simp
  next
    case (Some a)
    with r p1 show ?thesis by simp
  qed
qed

lemma fold_invariant: "(\<And>x s. P s \<Longrightarrow> P (f x s)) \<Longrightarrow> P s \<Longrightarrow> P (fold f xs s)"
  by (induction xs arbitrary: s) auto

lemma thenDo_invariant: "P (fst r) \<Longrightarrow> (\<And>s. P s \<Longrightarrow> P (fst (f s))) \<Longrightarrow> P (fst (thenDo r f))"
  by (cases r; cases "snd r") (auto simp: thenDo_def)

lemma allNamed_clear: "allNamed P clearParsedData"
  by (simp add: allNamed_def imageRecords_def clearParsedData_def)

lemma allNamed_orNow: "allNamed P (snd (orNow rt v st)) = allNamed P st"
  by (simp add: allNamed_def imageRecords_def orNow_def)

lemma allNamed_push:
  "allNamed P st \<Longrightarrow> recordNamed P r \<Longrightarrow> allNamed P (st\<lparr>processes := processes st @ [r]\<rparr>)"
  "allNamed P st \<Longrightarrow> recordNamed P r \<Longrightarrow>
     allNamed P (st\<lparr>networkConnections := networkConnections st @ [r]\<rparr>)"
  "allNamed P st \<Longrightarrow> recordNamed P r \<Longrightarrow> allNamed P (st\<lparr>fileActivities := fileActivities st @ [r]\<rparr>)"
  "allNamed P st \<Longrightarrow> recordNamed P r \<Longrightarrow> allNamed P (st\<lparr>dnsQueries := dnsQueries st @ [r]\<rparr>)"
  "allNamed P st \<Longrightarrow> recordNamed P r \<Longrightarrow>
     allNamed P (st\<lparr>registryChanges := registryChanges st @ [r]\<rparr>)"
  "allNamed P st \<Longrightarrow> allNamed P (st\<lparr>threats := ts\<rparr>)"
  by (simp_all add: allNamed_def imageRecords_def)

lemma sysmonProcessName_named:
  "sysmonProcessName ev = Inr name \<Longrightarrow> sysmonName (get ev ''Image'') name"
  by (cases "get ev ''Image''")
    (auto simp: sysmonProcessName_def sysmonName_def jsSplit_def after_backslash
      split: if_splits)

lemma sysmon_handlers_named:
  "allNamed sysmonName st \<Longrightarrow> allNamed sysmonName (fst (processProcessCreation rt ev st))"
  "allNamed sysmonName st \<Longrightarrow> allNamed sysmonName (fst (processNetworkConnection rt ev st))"
  "allNamed sysmonName st \<Longrightarrow> allNamed sysmonName (fst (processFileActivity rt ev st))"
  "allNamed sysmonName st \<Longrightarrow> allNamed sysmonName (fst (processDnsQuery rt ev st))"
  by (auto simp: processProcessCreation_def processNetworkConnection_def processFileActivity_def
      processDnsQuery_def split_def Let_def allNamed_orNow recordNamed_def field_def bindE_eq_Inr
      split: sum.splits intro!: allNamed_push dest: sysmonProcessName_named)

lemma sysmon_named:
  "allNamed sysmonName
     (sysmon_parseFiles rt files format)"
  unfolding sysmon_parseFiles_def
proof (rule fold_invariant)
  show "allNamed sysmonName clearParsedData" by (rule allNamed_clear)
next
  fix content and st :: run
  assume st: "allNamed sysmonName st"
  have ev: "allNamed sysmonName (fst (processSysmonEvent rt ev s))" if "allNamed sysmonName s" for ev s
    using that by (simp add: processSysmonEvent_def sysmon_handlers_named)
  have "allNamed sysmonName (fst (forEach (processSysmonEvent rt) events st))" for events
    using ev st by (rule forEach_invariant)
  with st show "allNamed sysmonName (sysmon_parseByFormat rt content format st)"
    by (simp add: sysmon_parseByFormat_def parseSysmonLogs_def split: option.splits jsval.splits)
qed

lemma elkProcessNameOrNA_named:
  "elkProcessNameOrNA img = Inr name \<Longrightarrow> derivedName img name"
  by (cases img)
    (auto simp: elkProcessNameOrNA_def derivedName_def elkProcessName_Str
      dest: elkProcessName_Inr split: if_splits)

lemma generic_named:
  "allNamed derivedName st \<Longrightarrow> allNamed derivedName (fst (genericProcess ev ts st))"
  "allNamed derivedName st \<Longrightarrow> allNamed derivedName (fst (genericNetwork ev ts st))"
  "allNamed derivedName st \<Longrightarrow> allNamed derivedName (fst (genericFile ev ts st))"
  "allNamed derivedName st \<Longrightarrow> allNamed derivedName (fst (genericDns ev ts st))"
  by (auto simp: genericProcess_def genericNetwork_def genericFile_def genericDns_def Let_def
      recordNamed_def field_def bindE_eq_Inr derivedName_def
      split: sum.splits intro!: allNamed_push
      dest!: elkProcessNameOrNA_named elkProcessName_Inr)

lemma elkLog_named:
  assumes "allNamed derivedName st"
  shows "allNamed derivedName (fst (elkLog rt log st))"
proof -
  have "allNamed derivedName (fst (processGenericEvent rt ev st))" for ev
    unfolding processGenericEvent_def split_def Let_def
    by (intro thenDo_invariant [where P = "allNamed derivedName"] generic_named)
       (simp add: allNamed_orNow assms)
  then show ?thesis
    using assms by (simp add: elkLog_def)
qed

lemma elk_named:
  "allNamed derivedName
     (fst (elk_parseFiles rt files format))"
  unfolding elk_parseFiles_def
proof (rule forEach_invariant)
  show "allNamed derivedName clearParsedData" by (rule allNamed_clear)
next
  fix content and st :: run
  assume st: "allNamed derivedName st"
  have "allNamed derivedName (fst (forEach (elkLog rt) events st))" for events
    using elkLog_named st by (rule forEach_invariant)
  with st show "allNamed derivedName (fst (elk_parseByFormat rt content format st))"
    by (simp add: elk_parseByFormat_def parseELKLogs_def split: option.splits)
qed

lemma defenderEvent_named:
  "allNamed verbatimName st \<Longrightarrow> allNamed verbatimName (fst (defenderEvent rt ev st))"
  by (auto simp: defenderEvent_def split_def Let_def allNamed_orNow recordNamed_def field_def
      verbatimName_def intro!: allNamed_push)

lemma defender_named:
  "allNamed verbatimName
     (defender_parseFiles rt files format)"
  unfolding defender_parseFiles_def
proof (rule fold_invariant)
  show "allNamed verbatimName clearParsedData" by (rule allNamed_clear)
next
  fix content and st :: run
  assume st: "allNamed verbatimName st"
  have "allNamed verbatimName (fst (forEach (defenderEvent rt) events st))" for events
    using defenderEvent_named st by (rule forEach_invariant)
  with st show "allNamed verbatimName (defender_parseByFormat rt content format st)"
    by (simp add: defender_parseByFormat_def parseDefenderLogs_def split: option.splits jsval.splits)
qed

lemma wazuh_steps_named:
  "allNamed verbatimName st \<Longrightarrow> allNamed verbatimName (fst (wazuhThreat rt alert ts st))"
  "allNamed verbatimName st \<Longrightarrow> allNamed verbatimName (fst (wazuhFim alert ts st))"
  by (auto simp: wazuhThreat_def wazuhFim_def Let_def recordNamed_def field_def verbatimName_def
      split: sum.splits intro!: allNamed_push)

lemma wazuhAlert_named:
  assumes "allNamed verbatimName st"
  shows "allNamed verbatimName (fst (wazuhAlert rt alert st))"
proof (cases "nullish alert")
  case True
  with assms show ?thesis by (simp add: wazuhAlert_def)
next
  case False
  have "allNamed verbatimName
          (fst (thenDo (wazuhThreat rt alert (fst (orNow rt (get alert ''timestamp'') st))
                  (snd (orNow rt (get alert ''timestamp'') st)))
                (wazuhFim alert (fst (orNow rt (get alert ''timestamp'') st)))))"
    by (intro thenDo_invariant [where P = "allNamed verbatimName"] wazuh_steps_named)
       (simp add: allNamed_orNow assms)
  with False show ?thesis
    by (simp add: wazuhAlert_def split_def Let_def)
qed

lemma wazuh_named:
  "allNamed verbatimName
     (wazuh_parseFiles rt files format)"
  unfolding wazuh_parseFiles_def
proof (rule fold_invariant)
  show "allNamed verbatimName clearParsedData" by (rule allNamed_clear)
next
  fix content and st :: run
  assume st: "allNamed verbatimName st"
  have "allNamed verbatimName (fst (forEach (wazuhAlert rt) alerts st))" for alerts
    using wazuhAlert_named st by (rule forEach_invariant)
  with st show "allNamed verbatimName (wazuh_parseByFormat rt content format st)"
    by (simp add: wazuh_parseByFormat_def parseWazuhLogs_def split: option.splits jsval.splits)
qed


section \<open>The claims\<close>

subsection \<open>C1\<close>

text \<open>
  C1, as the claim states it, fails: the endpoint-protection adapter takes the
  process name from \<^verbatim>\<open>InitiatingProcessFileName\<close> as it is, path included, and the
  process-monitor adapter splits on the backslash only, so that
  \<^verbatim>\<open>/usr/bin/bash\<close> stays whole.
\<close>

theorem C1_verbatim_name_counterexample:
  "processes (parseDefenderLogs (sampleRuntime ''t'') defenderProcessFile clearParsedData)
     = [[(''timestamp'', Str ''t''), (''processId'', Undefined), (''parentProcessId'', Undefined),
         (''image'', Str ''/opt/agent/bin/scan''), (''commandLine'', Undefined),
         (''user'', Str ''N/A''), (''processName'', Str ''/opt/agent/bin/scan'')]]
   \<and> finalSegment ''/opt/agent/bin/scan'' = ''scan''
   \<and> processes (parseSysmonLogs (sampleRuntime ''t'') bashProcessFile clearParsedData)
     = [[(''timestamp'', Str ''t''), (''processId'', Undefined), (''parentProcessId'', Undefined),
         (''image'', Str ''/usr/bin/bash''), (''commandLine'', Undefined), (''user'', Undefined),
         (''processName'', Str ''/usr/bin/bash'')]]
   \<and> finalSegment ''/usr/bin/bash'' = ''bash''"
  by code_simp

text \<open>
  C1, amended. In every run, each record of the generic adapter has as
  \<^verbatim>\<open>processName\<close> the final path segment of its image, both separators counting,
  or \<^verbatim>\<open>N/A\<close> when its image is empty or missing; each record of the process-monitor
  adapter has \<^verbatim>\<open>N/A\<close> when its image is empty or missing and, when its image has
  no slash, the final path segment; each record of the endpoint-protection and
  host-IDS adapters has the source's process name as it is, which is also its
  image, or \<^verbatim>\<open>N/A\<close>. The Windows path of \<^verbatim>\<open>cmd.exe\<close> in \<^verbatim>\<open>System32\<close> gives
  \<^verbatim>\<open>cmd.exe\<close> and \<^verbatim>\<open>/usr/bin/bash\<close> gives \<^verbatim>\<open>bash\<close>.
\<close>

theorem C1_processName:
  "allNamed derivedName
     (fst (elk_parseFiles rt files format))
   \<and> allNamed sysmonName
     (sysmon_parseFiles rt files format)
   \<and> allNamed verbatimName
     (defender_parseFiles rt files format)
   \<and> allNamed verbatimName
     (wazuh_parseFiles rt files format)
   \<and> finalSegment windowsPath = ''cmd.exe''
   \<and> finalSegment ''/usr/bin/bash'' = ''bash''
   \<and> elkProcessNameOrNA (Str windowsPath) = Inr (Str ''cmd.exe'')
   \<and> elkProcessNameOrNA (Str ''/usr/bin/bash'') = Inr (Str ''bash'')
   \<and> elkProcessNameOrNA (Str []) = Inr (Str ''N/A'')
   \<and> elkProcessNameOrNA Undefined = Inr (Str ''N/A'')
   \<and> sysmonProcessName (Obj [(''Image'', Str windowsPath)]) = Inr (Str ''cmd.exe'')
   \<and> sysmonProcessName (Obj []) = Inr (Str ''N/A'')"
proof -
  have "sysmonProcessName (Obj [(''Image'', Str windowsPath)]) = Inr (Str ''cmd.exe'')"
    "sysmonProcessName (Obj []) = Inr (Str ''N/A'')"
    "elkProcessNameOrNA (Str []) = Inr (Str ''N/A'')"
    by code_simp+
  then show ?thesis
    using elk_named [of rt files format] sysmon_named [of rt files format]
      defender_named [of rt files format] wazuh_named [of rt files format] examples
    by simp
qed

theorem C1_processName_witness:
  "imageRecords
     (fst (elk_parseFiles (sampleRuntime ''t'') [elkProcessFile] ''elk''))
     = [[(''timestamp'', Str ''t''), (''processId'', Num 42), (''parentProcessId'', Undefined),
         (''image'', Str ''/usr/bin/bash''), (''commandLine'', Undefined), (''user'', Undefined),
         (''processName'', Str ''bash'')],
        [(''timestamp'', Str ''t''), (''sourceIp'', Undefined), (''sourcePort'', Undefined),
         (''destinationIp'', Str ''203.0.113.5''), (''destinationPort'', Undefined),
         (''protocol'', Undefined), (''processId'', Num 42), (''image'', Str ''/usr/bin/bash''),
         (''user'', Undefined), (''processName'', Str ''bash'')]]
   \<and> allNamed derivedName
       (fst (elk_parseFiles (sampleRuntime ''t'') [elkProcessFile] ''elk''))
   \<and> allNamed sysmonName
       (sysmon_parseFiles (sampleRuntime ''t'') [networkArrayFile] ''sysmon'')
   \<and> allNamed verbatimName
       (defender_parseFiles (sampleRuntime ''t'') [defenderProcessFile] ''defender'')"
proof -
  have "imageRecords
     (fst (elk_parseFiles (sampleRuntime ''t'') [elkProcessFile] ''elk''))
     = [[(''timestamp'', Str ''t''), (''processId'', Num 42), (''parentProcessId'', Undefined),
         (''image'', Str ''/usr/bin/bash''), (''commandLine'', Undefined), (''user'', Undefined),
         (''processName'', Str ''bash'')],
        [(''timestamp'', Str ''t''), (''sourceIp'', Undefined), (''sourcePort'', Undefined),
         (''destinationIp'', Str ''203.0.113.5''), (''destinationPort'', Undefined),
         (''protocol'', Undefined), (''processId'', Num 42), (''image'', Str ''/usr/bin/bash''),
         (''user'', Undefined), (''processName'', Str ''bash'')]]"
    by code_simp
  then show ?thesis
    using C1_processName [of "sampleRuntime ''t''" "[elkProcessFile]" "''elk''"]
      C1_processName [of "sampleRuntime ''t''" "[networkArrayFile]" "''sysmon''"]
      C1_processName [of "sampleRuntime ''t''" "[defenderProcessFile]" "''defender''"]
    by simp
qed

subsection \<open>C2\<close>

text \<open>
  C2. \<^verbatim>\<open>mapWazuhLevel\<close> at the level 0, which is present and below 3: the test
  \<^verbatim>\<open>!level\<close> takes it for an absent level and the result is \<^verbatim>\<open>low\<close>, not
  \<^verbatim>\<open>informational\<close>.
\<close>

theorem C2_mapWazuhLevel_zero:
  "mapWazuhLevel rt (Num 0) = Inr (Str ''low'')"
  by (simp add: mapWazuhLevel_def)

text \<open>
  Every other numeric level and the absent level are mapped as the thresholds say.
\<close>

lemma mapWazuhLevel_nonzero:
  "n \<noteq> 0 \<Longrightarrow>
     mapWazuhLevel rt (Num n) =
       Inr (Str (if 12 \<le> n then ''high'' else if 7 \<le> n then ''medium''
                 else if 3 \<le> n then ''low'' else ''informational''))"
  by (simp add: mapWazuhLevel_def geNum_def toNumber_def)

lemma mapWazuhLevel_absent:
  "mapWazuhLevel rt Undefined = Inr (Str ''low'') \<and> mapWazuhLevel rt Null = Inr (Str ''low'')"
  by (simp add: mapWazuhLevel_def)

subsection \<open>C3\<close>

text \<open>
  C3, as the claim states it, fails for the process-monitor adapter: a file whose
  content is one JSON object with a network event yields the empty bundle, while
  the same event inside an array yields a bundle that is not empty.
\<close>

theorem C3_sysmon_object_counterexample:
  "sysmon_parseLogs (sampleRuntime ''t'') [networkObjectFile] ''sysmon'' noData
     = Inr emptyVisualization
   \<and> sysmon_parseLogs (sampleRuntime ''t'') [networkArrayFile] ''sysmon'' noData
     \<noteq> Inr emptyVisualization"
  by code_simp

text \<open>
  C3, amended. When a file's content parses as a JSON value that is not an array,
  the generic adapter (\<^verbatim>\<open>ElkLogParser\<close>) processes it as a batch of one event; the
  process-monitor, endpoint-protection and host-IDS adapters skip the file and
  leave their state as it was.
\<close>

theorem C3_single_object:
  assumes "jsonParse rt content = Some v" and "\<not> isArray v"
  shows "parseELKLogs rt content st = forEach (elkLog rt) [v] st
         \<and> parseSysmonLogs rt content st = st
         \<and> parseDefenderLogs rt content st = st
         \<and> parseWazuhLogs rt content st = st"
  using assms elkEvents_non_array [OF assms]
  by (cases v)
    (simp_all add: parseELKLogs_def parseSysmonLogs_def parseDefenderLogs_def parseWazuhLogs_def)

theorem C3_single_object_witness:
  "jsonParse (sampleRuntime ''t'') networkObjectFile = Some networkEvent
   \<and> \<not> isArray networkEvent
   \<and> parseELKLogs (sampleRuntime ''t'') networkObjectFile clearParsedData
       = forEach (elkLog (sampleRuntime ''t'')) [networkEvent] clearParsedData
   \<and> parseSysmonLogs (sampleRuntime ''t'') networkObjectFile clearParsedData = clearParsedData
   \<and> parseDefenderLogs (sampleRuntime ''t'') networkObjectFile clearParsedData = clearParsedData
   \<and> parseWazuhLogs (sampleRuntime ''t'') networkObjectFile clearParsedData = clearParsedData"
proof -
  have p: "jsonParse (sampleRuntime ''t'') networkObjectFile = Some networkEvent"
    by (rule sample_parse)
  have a: "\<not> isArray networkEvent"
    by (simp add: networkEvent_def)
  show ?thesis
    using p a C3_single_object [OF p a, of clearParsedData] by simp
qed

subsection \<open>C4\<close>

text \<open>
  C4. For a connection whose destination the classifier finds not internal, the
  loop body of the process-monitor detector, and that of the generic and
  endpoint-protection detectors, pushes exactly one threat indicator, which
  contains the destination, and exactly one attack-chain entry, labelled
  \<^verbatim>\<open>Command and Control (C2)\<close> and numbered with the current step (given that the
  port and the process name convert to strings). In every bundle that these
  detectors return, the command-and-control indicators and the
  command-and-control entries are each as many as the parsed connections with
  such a destination; the host-IDS adapter parses no connection. A process-monitor
  file of one event with \<^verbatim>\<open>EventID\<close> 3 and \<^verbatim>\<open>DestinationIp\<close> 203.0.113.5 yields a
  bundle with exactly one indicator, which contains that address, and exactly one
  attack-chain entry, which starts with \<^verbatim>\<open>1. Command and Control (C2)\<close>.
\<close>

theorem C4_command_and_control:
  "(isInternalIP (field conn ''destinationIp'') = Inr False
      \<and> toStr (field conn ''destinationIp'') = Inr ip
      \<and> toStr (field conn ''destinationPort'') = Inr port
      \<and> toStr (jsOr (field conn ''processName'') (Str ''N/A'')) = Inr name \<longrightarrow>
    sysmon_connection conn (v, step) =
      Inr (pushConnection (setProp conn ''process'' (jsOr (field conn ''processName'') (Str ''N/A'')))
             (pushAttackChain (c2Entry step ip port name)
                (pushThreatIndicator (Str (c2Indicator ip port name)) v)), Suc step)
    \<and> c2_connection conn (v, step) =
      Inr (pushConnection (setProp conn ''process'' (jsOr (field conn ''processName'') (Str ''N/A'')))
             (pushAttackChain (c2Entry step ip port name)
                (pushThreatIndicator (Str (c2Indicator ip port name)) v)), Suc step)
    \<and> contains (c2Indicator ip port name) ip)
   \<and> (sysmon_generateVisualizationData pd = Inr b
        \<or> elk_generateVisualizationData pd = Inr b
        \<or> defender_generateVisualizationData pd = Inr b \<longrightarrow>
      c2Count b = (length (filter notInternal (networkConnections pd)),
                   length (filter notInternal (networkConnections pd))))
   \<and> networkConnections
        (wazuh_parseFiles rt files format) = []
   \<and> (jsonParse rt content = Some (Arr [event])
        \<and> get event ''EventID'' = Num 3
        \<and> get event ''DestinationIp'' = Str ''203.0.113.5''
        \<and> sysmonProcessName event = Inr processName
        \<and> toStr (get event ''DestinationPort'') = Inr port
        \<and> toStr (jsOr processName (Str ''N/A'')) = Inr name \<longrightarrow>
      (\<exists>bundle. sysmon_parseLogs rt [content] ''sysmon'' before = Inr bundle
         \<and> threatIndicators (aptPatterns bundle) = [Str (c2Indicator ''203.0.113.5'' port name)]
         \<and> contains (c2Indicator ''203.0.113.5'' port name) ''203.0.113.5''
         \<and> attackChain (aptPatterns bundle) = [c2Entry 1 ''203.0.113.5'' port name]
         \<and> startsWith (c2Entry 1 ''203.0.113.5'' port name) ''1. Command and Control (C2)''))"
  using c2_step [of conn ip port name v step] generate_count [of pd b]
    wazuh_no_connections [of rt files format]
    scenario_A [of rt content event processName port name before]
    c2_texts [of ip port name] c2_texts [of "''203.0.113.5''" port name]
  by blast

theorem C4_command_and_control_witness:
  "isInternalIP (field (hd (networkConnections twoConnectionsParsed)) ''destinationIp'') = Inr False
   \<and> toStr (field (hd (networkConnections twoConnectionsParsed)) ''destinationIp'')
       = Inr ''203.0.113.5''
   \<and> toStr (field (hd (networkConnections twoConnectionsParsed)) ''destinationPort'')
       = Inr ''undefined''
   \<and> toStr (jsOr (field (hd (networkConnections twoConnectionsParsed)) ''processName'') (Str ''N/A''))
       = Inr ''N/A''
   \<and> sysmon_connection (hd (networkConnections twoConnectionsParsed)) (emptyVisualization, 1) =
       Inr (pushConnection
              (setProp (hd (networkConnections twoConnectionsParsed)) ''process'' (Str ''N/A''))
              (pushAttackChain (c2Entry 1 ''203.0.113.5'' ''undefined'' ''N/A'')
                 (pushThreatIndicator (Str (c2Indicator ''203.0.113.5'' ''undefined'' ''N/A''))
                    emptyVisualization)), 2)
   \<and> sysmon_generateVisualizationData twoConnectionsParsed = Inr twoConnectionsBundle
   \<and> c2Count twoConnectionsBundle = (2, 2)
   \<and> length (filter notInternal (networkConnections twoConnectionsParsed)) = 2
   \<and> jsonParse (sampleRuntime ''t'') networkArrayFile = Some (Arr [networkEvent])
   \<and> get networkEvent ''EventID'' = Num 3
   \<and> get networkEvent ''DestinationIp'' = Str ''203.0.113.5''
   \<and> sysmonProcessName networkEvent = Inr (Str ''N/A'')
   \<and> toStr (get networkEvent ''DestinationPort'') = Inr ''undefined''
   \<and> (\<exists>bundle. sysmon_parseLogs (sampleRuntime ''t'') [networkArrayFile] ''sysmon'' noData = Inr bundle
         \<and> threatIndicators (aptPatterns bundle)
             = [Str ''Command and Control Connection: Outbound connection to C2 IP: 203.0.113.5:undefined (Process: N/A)'']
         \<and> attackChain (aptPatterns bundle)
             = [''1. Command and Control (C2): Suspicious network connection to 203.0.113.5:undefined from N/A''])"
proof -
  have h:
    "isInternalIP (field (hd (networkConnections twoConnectionsParsed)) ''destinationIp'') = Inr False"
    "toStr (field (hd (networkConnections twoConnectionsParsed)) ''destinationIp'') = Inr ''203.0.113.5''"
    "toStr (field (hd (networkConnections twoConnectionsParsed)) ''destinationPort'') = Inr ''undefined''"
    "toStr (jsOr (field (hd (networkConnections twoConnectionsParsed)) ''processName'') (Str ''N/A''))
       = Inr ''N/A''"
    "jsOr (field (hd (networkConnections twoConnectionsParsed)) ''processName'') (Str ''N/A'')
       = Str ''N/A''"
    "sysmon_generateVisualizationData twoConnectionsParsed = Inr twoConnectionsBundle"
    "length (filter notInternal (networkConnections twoConnectionsParsed)) = 2"
    "jsonParse (sampleRuntime ''t'') networkArrayFile = Some (Arr [networkEvent])"
    "get networkEvent ''EventID'' = Num 3"
    "get networkEvent ''DestinationIp'' = Str ''203.0.113.5''"
    "sysmonProcessName networkEvent = Inr (Str ''N/A'')"
    "toStr (get networkEvent ''DestinationPort'') = Inr ''undefined''"
    "toStr (jsOr (Str ''N/A'') (Str ''N/A'')) = Inr ''N/A''"
    by code_simp+
  have t: "c2Indicator ''203.0.113.5'' ''undefined'' ''N/A''
             = ''Command and Control Connection: Outbound connection to C2 IP: 203.0.113.5:undefined (Process: N/A)''"
    "c2Entry 1 ''203.0.113.5'' ''undefined'' ''N/A''
             = ''1. Command and Control (C2): Suspicious network connection to 203.0.113.5:undefined from N/A''"
    by code_simp+
  show ?thesis
    using h t
      C4_command_and_control [of "hd (networkConnections twoConnectionsParsed)" "''203.0.113.5''"
        "''undefined''" "''N/A''" emptyVisualization 1 twoConnectionsParsed twoConnectionsBundle
        "sampleRuntime ''t''" "[]" "''sysmon''" networkArrayFile networkEvent "Str ''N/A''" noData]
    by (simp del: One_nat_def)
qed

subsection \<open>C5\<close>

text \<open>
  C5, as the claim states it, fails on a string that is no dotted quad: the IPv6
  address \<^verbatim>\<open>10::1.2.3.4\<close> has four parts between dots, \<^verbatim>\<open>parseInt\<close> reads 10 from its
  first part \<^verbatim>\<open>10::1\<close>, and the address is classified as internal; so is
  \<^verbatim>\<open>10abc.0.0.1\<close>.
\<close>

theorem C5_lenient_octet_counterexample:
  "splitOn CHR ''.'' ''10::1.2.3.4'' = [''10::1'', ''2'', ''3'', ''4'']
   \<and> parseInt ''10::1'' = Some 10
   \<and> isInternalIP (Str ''10::1.2.3.4'') = Inr True
   \<and> isInternalIP (Str ''10abc.0.0.1'') = Inr True"
  by code_simp

text \<open>
  C5, amended. For every address string, \<^verbatim>\<open>isInternalIP\<close> never throws and returns true
  exactly when the address is the literal \<^verbatim>\<open>127.0.0.1\<close> or \<^verbatim>\<open>::1\<close>, or has four parts
  between dots with first octet 10, or first octet 172 and second octet from 16 to
  31, or first octet 192 and second octet 168, an octet being what \<^verbatim>\<open>parseInt\<close> reads
  from the front of the part. For an address written from four numbers in decimal
  these are conditions on the numbers themselves. Every other string, the empty
  string and the IPv6 private address \<^verbatim>\<open>fd00::1\<close> among them, gives false.
\<close>

theorem C5_isInternalIP_ranges:
  "isInternalIP (Str s) =
     Inr (s = ''127.0.0.1'' \<or> s = ''::1'' \<or>
          (length (splitOn CHR ''.'' s) = 4 \<and>
             (octet s 0 = Some 10
              \<or> (octet s 0 = Some 172 \<and> (\<exists>n. octet s 1 = Some n \<and> 16 \<le> n \<and> n \<le> 31))
              \<or> (octet s 0 = Some 192 \<and> octet s 1 = Some 168))))
   \<and> isInternalIP (Str (dottedQuad a b c d)) =
        Inr (a = 10 \<or> (a = 172 \<and> 16 \<le> b \<and> b \<le> 31) \<or> (a = 192 \<and> b = 168)
             \<or> (a = 127 \<and> b = 0 \<and> c = 0 \<and> d = 1))
   \<and> isInternalIP (Str ''10.0.0.1'') = Inr True
   \<and> isInternalIP (Str ''172.16.0.5'') = Inr True
   \<and> isInternalIP (Str ''192.168.1.1'') = Inr True
   \<and> isInternalIP (Str ''127.0.0.1'') = Inr True
   \<and> isInternalIP (Str ''172.32.0.5'') = Inr False
   \<and> isInternalIP (Str ''8.8.8.8'') = Inr False
   \<and> isInternalIP (Str '''') = Inr False
   \<and> isInternalIP (Str ''fd00::1'') = Inr False"
  using isInternalIP_octets [of s] isInternalIP_dottedQuad [of a b c d] isInternalIP_examples
  by blast

subsection \<open>C6\<close>

text \<open>
  C6, as the claim states it, fails for the process-monitor adapter: the event
  \<^verbatim>\<open>{"EventID":3}\<close> carries no destination IP, and a network-connection record is
  pushed for it all the same.
\<close>

theorem C6_sysmon_no_destination_counterexample:
  "get noDestinationEvent ''DestinationIp'' = Undefined
   \<and> parseSysmonLogs (sampleRuntime ''t'') noDestinationFile clearParsedData
       = clearParsedData
           \<lparr>networkConnections :=
              [[(''timestamp'', Str ''t''), (''sourceIp'', Undefined), (''sourcePort'', Undefined),
                (''destinationIp'', Undefined), (''destinationPort'', Undefined),
                (''protocol'', Undefined), (''processId'', Undefined), (''image'', Undefined),
                (''user'', Undefined), (''processName'', Str ''N/A'')]],
            clockReads := 1\<rparr>"
  by code_simp

text \<open>
  C6, amended. The generic adapter pushes a record into a category only if the
  category's fields are truthy in the event (image and process id; destination IP;
  file path; DNS query name), and the host-IDS adapter likewise (rule id and
  description for a threat; file and action of the audit event for a file
  activity): otherwise the category is left as it was. The process-monitor and
  endpoint-protection adapters choose the category by \<^verbatim>\<open>EventID\<close> and
  \<^verbatim>\<open>EventType\<close> alone: a category is left as it was by every event of another code
  or type, and a network event gets its record whatever its destination IP is.
\<close>

theorem C6_emission_discriminants:
  "(\<not> (truthy (elk_processImage ev) \<and> truthy (elk_processId ev)) \<longrightarrow>
      processes (fst (processGenericEvent rt ev st)) = processes st)
   \<and> (\<not> truthy (elk_destIp ev) \<longrightarrow>
      networkConnections (fst (processGenericEvent rt ev st)) = networkConnections st)
   \<and> (\<not> truthy (elk_filePath ev) \<longrightarrow>
      fileActivities (fst (processGenericEvent rt ev st)) = fileActivities st)
   \<and> (\<not> truthy (elk_dnsQuery ev) \<longrightarrow>
      dnsQueries (fst (processGenericEvent rt ev st)) = dnsQueries st)
   \<and> (\<not> (truthy (get (wazuh_rule ev) ''id'') \<and> truthy (get (wazuh_rule ev) ''description'')) \<longrightarrow>
      threats (fst (wazuhAlert rt ev st)) = threats st)
   \<and> (\<not> (truthy (get (wazuh_auditEvent ev) ''file'') \<and> truthy (get (wazuh_auditEvent ev) ''action'')) \<longrightarrow>
      fileActivities (fst (wazuhAlert rt ev st)) = fileActivities st)
   \<and> (get ev ''EventID'' \<noteq> Num 1 \<longrightarrow>
      processes (fst (processSysmonEvent rt ev st)) = processes st)
   \<and> (get ev ''EventID'' \<noteq> Num 3 \<longrightarrow>
      networkConnections (fst (processSysmonEvent rt ev st)) = networkConnections st)
   \<and> (get ev ''EventID'' \<noteq> Num 11 \<and> get ev ''EventID'' \<noteq> Num 23 \<and> get ev ''EventID'' \<noteq> Num 15 \<longrightarrow>
      fileActivities (fst (processSysmonEvent rt ev st)) = fileActivities st)
   \<and> (get ev ''EventID'' \<noteq> Num 22 \<longrightarrow>
      dnsQueries (fst (processSysmonEvent rt ev st)) = dnsQueries st)
   \<and> (get ev ''EventID'' = Num 3 \<and> sysmonProcessName ev = Inr name \<longrightarrow>
      (\<exists>r. networkConnections (fst (processSysmonEvent rt ev st)) = networkConnections st @ [r]
           \<and> field r ''destinationIp'' = get ev ''DestinationIp''))
   \<and> (get ev ''EventType'' \<noteq> Str ''ProcessCreated'' \<longrightarrow>
      processes (fst (defenderEvent rt ev st)) = processes st)
   \<and> (get ev ''EventType'' \<noteq> Str ''NetworkConnection'' \<longrightarrow>
      networkConnections (fst (defenderEvent rt ev st)) = networkConnections st)
   \<and> (get ev ''EventType'' \<noteq> Str ''FileCreated'' \<and> get ev ''EventType'' \<noteq> Str ''FileDeleted'' \<longrightarrow>
      fileActivities (fst (defenderEvent rt ev st)) = fileActivities st)
   \<and> (get ev ''EventType'' \<noteq> Str ''DnsQuery'' \<longrightarrow>
      dnsQueries (fst (defenderEvent rt ev st)) = dnsQueries st)
   \<and> (get ev ''EventType'' \<noteq> Str ''Detection'' \<longrightarrow>
      threats (fst (defenderEvent rt ev st)) = threats st)
   \<and> (get ev ''EventType'' \<noteq> Str ''RegistryValueSet'' \<longrightarrow>
      registryChanges (fst (defenderEvent rt ev st)) = registryChanges st)
   \<and> (get ev ''EventType'' = Str ''NetworkConnection'' \<longrightarrow>
      (\<exists>r. networkConnections (fst (defenderEvent rt ev st)) = networkConnections st @ [r]
           \<and> field r ''destinationIp'' = get ev ''DestinationIp''))"
  using elk_discriminants [of ev rt st] wazuh_discriminants [of ev rt st]
    sysmon_discriminants [of ev rt st] sysmon_network_always [of ev name rt st]
    defender_discriminants [of ev rt st] defender_network_always [of ev rt st]
  by blast

theorem C6_emission_discriminants_witness:
  "\<not> truthy (elk_processImage networkEvent) \<and> \<not> truthy (elk_filePath networkEvent)
   \<and> \<not> truthy (elk_dnsQuery networkEvent)
   \<and> processes (fst (processGenericEvent (sampleRuntime ''t'') networkEvent clearParsedData)) = []
   \<and> fileActivities (fst (processGenericEvent (sampleRuntime ''t'') networkEvent clearParsedData)) = []
   \<and> dnsQueries (fst (processGenericEvent (sampleRuntime ''t'') networkEvent clearParsedData)) = []
   \<and> \<not> truthy (elk_destIp noDestinationEvent)
   \<and> networkConnections (fst (processGenericEvent (sampleRuntime ''t'') noDestinationEvent clearParsedData)) = []
   \<and> \<not> truthy (get (wazuh_rule networkEvent) ''id'')
   \<and> \<not> truthy (get (wazuh_auditEvent networkEvent) ''file'')
   \<and> threats (fst (wazuhAlert (sampleRuntime ''t'') networkEvent clearParsedData)) = []
   \<and> fileActivities (fst (wazuhAlert (sampleRuntime ''t'') networkEvent clearParsedData)) = []
   \<and> get networkEvent ''EventID'' = Num 3
   \<and> processes (fst (processSysmonEvent (sampleRuntime ''t'') networkEvent clearParsedData)) = []
   \<and> fileActivities (fst (processSysmonEvent (sampleRuntime ''t'') networkEvent clearParsedData)) = []
   \<and> dnsQueries (fst (processSysmonEvent (sampleRuntime ''t'') networkEvent clearParsedData)) = []
   \<and> get defenderConnectionEvent ''EventID'' = Undefined
   \<and> networkConnections (fst (processSysmonEvent (sampleRuntime ''t'') defenderConnectionEvent clearParsedData)) = []
   \<and> get noDestinationEvent ''EventID'' = Num 3
   \<and> sysmonProcessName noDestinationEvent = Inr (Str ''N/A'')
   \<and> get noDestinationEvent ''DestinationIp'' = Undefined
   \<and> (\<exists>r. networkConnections (fst (processSysmonEvent (sampleRuntime ''t'') noDestinationEvent clearParsedData)) = [r]
         \<and> field r ''destinationIp'' = Undefined)
   \<and> get networkEvent ''EventType'' = Undefined
   \<and> processes (fst (defenderEvent (sampleRuntime ''t'') networkEvent clearParsedData)) = []
   \<and> networkConnections (fst (defenderEvent (sampleRuntime ''t'') networkEvent clearParsedData)) = []
   \<and> fileActivities (fst (defenderEvent (sampleRuntime ''t'') networkEvent clearParsedData)) = []
   \<and> dnsQueries (fst (defenderEvent (sampleRuntime ''t'') networkEvent clearParsedData)) = []
   \<and> threats (fst (defenderEvent (sampleRuntime ''t'') networkEvent clearParsedData)) = []
   \<and> registryChanges (fst (defenderEvent (sampleRuntime ''t'') networkEvent clearParsedData)) = []
   \<and> get defenderConnectionEvent ''EventType'' = Str ''NetworkConnection''
   \<and> get defenderConnectionEvent ''DestinationIp'' = Undefined
   \<and> (\<exists>r. networkConnections (fst (defenderEvent (sampleRuntime ''t'') defenderConnectionEvent clearParsedData)) = [r]
         \<and> field r ''destinationIp'' = Undefined)"
proof -
  have h:
    "\<not> truthy (elk_processImage networkEvent)" "\<not> truthy (elk_filePath networkEvent)"
    "\<not> truthy (elk_dnsQuery networkEvent)" "\<not> truthy (elk_destIp noDestinationEvent)"
    "\<not> truthy (get (wazuh_rule networkEvent) ''id'')"
    "\<not> truthy (get (wazuh_auditEvent networkEvent) ''file'')"
    "get networkEvent ''EventID'' = Num 3" "get defenderConnectionEvent ''EventID'' = Undefined"
    "get noDestinationEvent ''EventID'' = Num 3"
    "sysmonProcessName noDestinationEvent = Inr (Str ''N/A'')"
    "get noDestinationEvent ''DestinationIp'' = Undefined"
    "get networkEvent ''EventType'' = Undefined"
    "get defenderConnectionEvent ''EventType'' = Str ''NetworkConnection''"
    "get defenderConnectionEvent ''DestinationIp'' = Undefined"
    by (simp_all add: networkEvent_def noDestinationEvent_def defenderConnectionEvent_def
        elk_processImage_def elk_filePath_def elk_dnsQuery_def elk_destIp_def wazuh_rule_def
        wazuh_auditEvent_def jsOr_def field_def sysmonProcessName_def)
  have c: "processes clearParsedData = []" "networkConnections clearParsedData = []"
    "fileActivities clearParsedData = []" "dnsQueries clearParsedData = []"
    "threats clearParsedData = []" "registryChanges clearParsedData = []"
    by (simp_all add: clearParsedData_def)
  show ?thesis
    using h c
      C6_emission_discriminants [of networkEvent "sampleRuntime ''t''" clearParsedData "Str ''N/A''"]
      C6_emission_discriminants [of noDestinationEvent "sampleRuntime ''t''" clearParsedData "Str ''N/A''"]
      C6_emission_discriminants [of defenderConnectionEvent "sampleRuntime ''t''" clearParsedData "Str ''N/A''"]
    by simp
qed

subsection \<open>C7\<close>

text \<open>
  C7. Whenever the host-IDS detector returns a bundle, its threat indicators are
  the projections of the parsed threats, one for one and in order, and its attack
  chain has one entry for each of them, the \<open>k\<close>-th alert's entry being numbered
  \<open>k\<close>, under no condition. Whenever the endpoint-protection detector returns a
  bundle, the projections of the detections are appended to the threat indicators
  that the bundle has without them, and the attack chain is the one that the
  bundle has without them. The process-monitor and generic adapters produce no
  threat event.
\<close>

theorem C7_native_threats:
  "(wazuh_generateVisualizationData pd = Inr v \<longrightarrow>
      threatIndicators (aptPatterns v) = map threatIndicator (threats pd)
      \<and> map Inr (attackChain (aptPatterns v))
          = map2 wazuhEntry [1..<Suc (length (threats pd))] (threats pd))
   \<and> (defender_generateVisualizationData pd = Inr v \<longrightarrow>
      (\<exists>w. defender_generateVisualizationData (pd\<lparr>threats := []\<rparr>) = Inr w
         \<and> threatIndicators (aptPatterns v)
             = threatIndicators (aptPatterns w) @ map threatIndicator (threats pd)
         \<and> attackChain (aptPatterns v) = attackChain (aptPatterns w)))
   \<and> threats (sysmon_parseFiles rt files format) = []
   \<and> threats (fst (elk_parseFiles rt files format))
       = []"
  using wazuh_generate_threats [of pd v] defender_generate_threats [of pd v]
    sysmon_no_threats [of rt files format] elk_no_threats [of rt files format]
  by blast

theorem C7_native_threats_witness:
  "parseWazuhLogs (sampleRuntime ''t'') wazuhAlertFile clearParsedData = wazuhParsed
   \<and> wazuh_generateVisualizationData wazuhParsed = Inr wazuhBundle
   \<and> wazuh_parseLogs (sampleRuntime ''t'') [wazuhAlertFile] ''wazuh'' noData = Inr wazuhBundle
   \<and> threatIndicators (aptPatterns wazuhBundle) = map threatIndicator (threats wazuhParsed)
   \<and> map Inr (attackChain (aptPatterns wazuhBundle))
       = map2 wazuhEntry [1..<Suc (length (threats wazuhParsed))] (threats wazuhParsed)
   \<and> parseDefenderLogs (sampleRuntime ''t'') detectionFile clearParsedData = detectionParsed
   \<and> defender_generateVisualizationData detectionParsed = Inr detectionBundle
   \<and> defender_parseLogs (sampleRuntime ''t'') [detectionFile] ''defender'' noData
       = Inr detectionBundle
   \<and> threatIndicators (aptPatterns detectionBundle) = map threatIndicator (threats detectionParsed)
   \<and> attackChain (aptPatterns detectionBundle) = []"
proof -
  have w: "wazuh_generateVisualizationData wazuhParsed = Inr wazuhBundle"
    by code_simp
  have d: "defender_generateVisualizationData detectionParsed = Inr detectionBundle"
    by code_simp
  have p: "parseWazuhLogs (sampleRuntime ''t'') wazuhAlertFile clearParsedData = wazuhParsed"
    "wazuh_parseLogs (sampleRuntime ''t'') [wazuhAlertFile] ''wazuh'' noData = Inr wazuhBundle"
    "parseDefenderLogs (sampleRuntime ''t'') detectionFile clearParsedData = detectionParsed"
    "defender_parseLogs (sampleRuntime ''t'') [detectionFile] ''defender'' noData = Inr detectionBundle"
    "threatIndicators (aptPatterns detectionBundle) = map threatIndicator (threats detectionParsed)"
    "attackChain (aptPatterns detectionBundle) = []"
    by code_simp+
  show ?thesis
    using w d p C7_native_threats [of wazuhParsed wazuhBundle]
    by simp
qed

subsection \<open>C8\<close>

text \<open>
  C8, as the claim states it, fails: the timestamp of an event that carries none
  is the clock's reading, so the same file parsed at two different times gives
  two different bundles.
\<close>

theorem C8_clock_counterexample:
  "sysmon_parseLogs (sampleRuntime ''2024-01-01T00:00:00.000Z'') [networkArrayFile] ''sysmon'' noData
   \<noteq> sysmon_parseLogs (sampleRuntime ''2024-01-01T00:00:01.000Z'') [networkArrayFile] ''sysmon'' noData"
  by code_simp

text \<open>
  C8, amended. The result of \<^verbatim>\<open>parseLogs\<close> is a function of the files, the format
  tag and what the runtime supplies during the call (the clock's readings among
  it): it is the same whatever state an earlier run has left in the parser. The
  entries of the attack chain of every bundle are numbered 1, 2, 3, ... in order,
  so the step counter restarts at 1 on every call.
\<close>

theorem C8_runs_independent:
  "sysmon_parseLogs rt files format before = sysmon_parseLogs rt files format before'
   \<and> elk_parseLogs rt files format before = elk_parseLogs rt files format before'
   \<and> defender_parseLogs rt files format before = defender_parseLogs rt files format before'
   \<and> wazuh_parseLogs rt files format before = wazuh_parseLogs rt files format before'
   \<and> (sysmon_parseLogs rt files format before = Inr v \<longrightarrow> numbered 1 (attackChain (aptPatterns v)))
   \<and> (elk_parseLogs rt files format before = Inr v \<longrightarrow> numbered 1 (attackChain (aptPatterns v)))
   \<and> (defender_parseLogs rt files format before = Inr v \<longrightarrow> numbered 1 (attackChain (aptPatterns v)))
   \<and> (wazuh_parseLogs rt files format before = Inr v \<longrightarrow> numbered 1 (attackChain (aptPatterns v)))"
  using parseLogs_numbered [of rt files format before v]
  by (simp add: sysmon_parseLogs_def elk_parseLogs_def defender_parseLogs_def wazuh_parseLogs_def)

theorem C8_runs_independent_witness:
  "sysmon_parseLogs (sampleRuntime ''t'') [networkArrayFile, noDestinationFile] ''sysmon'' noData
     = Inr twoConnectionsBundle
   \<and> numbered 1 (attackChain (aptPatterns twoConnectionsBundle))
   \<and> elk_parseLogs (sampleRuntime ''t'') [networkArrayFile, noDestinationFile] ''elk'' noData
     = elk_parseLogs (sampleRuntime ''t'') [networkArrayFile, noDestinationFile] ''elk''
         (noData\<lparr>threats := [[(''threatName'', Str ''left by an earlier run'')]]\<rparr>)"
proof -
  have e: "sysmon_parseLogs (sampleRuntime ''t'') [networkArrayFile, noDestinationFile] ''sysmon'' noData
           = Inr twoConnectionsBundle"
    by code_simp
  show ?thesis
    using e
      C8_runs_independent [of "sampleRuntime ''t''" "[networkArrayFile, noDestinationFile]"
        "''sysmon''" noData noData twoConnectionsBundle]
      C8_runs_independent [of "sampleRuntime ''t''" "[networkArrayFile, noDestinationFile]"
        "''elk''" noData "noData\<lparr>threats := [[(''threatName'', Str ''left by an earlier run'')]]\<rparr>"]
    by simp
qed

subsection \<open>C9\<close>

text \<open>
  C9. Given a format tag that is not its own, every adapter parses nothing and
  \<^verbatim>\<open>parseLogs\<close> returns, without an exception, the bundle whose five lists are empty.
\<close>

theorem C9_unsupported_format:
  "(format \<noteq> ''sysmon'' \<longrightarrow> sysmon_parseLogs rt files format before = Inr emptyVisualization)
   \<and> (format \<noteq> ''elk'' \<longrightarrow> elk_parseLogs rt files format before = Inr emptyVisualization)
   \<and> (format \<noteq> ''defender'' \<longrightarrow> defender_parseLogs rt files format before = Inr emptyVisualization)
   \<and> (format \<noteq> ''wazuh'' \<longrightarrow> wazuh_parseLogs rt files format before = Inr emptyVisualization)"
proof (intro conjI impI)
  assume "format \<noteq> ''sysmon''"
  then have "sysmon_parseFiles rt files format
             = clearParsedData"
    unfolding sysmon_parseFiles_def by (intro fold_id) (simp add: sysmon_parseByFormat_def)
  then show "sysmon_parseLogs rt files format before = Inr emptyVisualization"
    by (simp add: sysmon_parseLogs_def generate_clear)
next
  assume "format \<noteq> ''elk''"
  then have "elk_parseFiles rt files format
             = (clearParsedData, None)"
    unfolding elk_parseFiles_def by (intro forEach_skip) (simp add: elk_parseByFormat_def)
  then show "elk_parseLogs rt files format before = Inr emptyVisualization"
    by (simp add: elk_parseLogs_def generate_clear)
next
  assume "format \<noteq> ''defender''"
  then have "defender_parseFiles rt files format
             = clearParsedData"
    unfolding defender_parseFiles_def by (intro fold_id) (simp add: defender_parseByFormat_def)
  then show "defender_parseLogs rt files format before = Inr emptyVisualization"
    by (simp add: defender_parseLogs_def generate_clear)
next
  assume "format \<noteq> ''wazuh''"
  then have "wazuh_parseFiles rt files format
             = clearParsedData"
    unfolding wazuh_parseFiles_def by (intro fold_id) (simp add: wazuh_parseByFormat_def)
  then show "wazuh_parseLogs rt files format before = Inr emptyVisualization"
    by (simp add: wazuh_parseLogs_def generate_clear)
qed

theorem C9_unsupported_format_witness:
  "sysmon_parseLogs (sampleRuntime ''t'') [networkArrayFile] ''elk'' noData = Inr emptyVisualization
   \<and> elk_parseLogs (sampleRuntime ''t'') [networkArrayFile] ''sysmon'' noData = Inr emptyVisualization
   \<and> defender_parseLogs (sampleRuntime ''t'') [networkArrayFile] ''sysmon'' noData
       = Inr emptyVisualization
   \<and> wazuh_parseLogs (sampleRuntime ''t'') [networkArrayFile] ''sysmon'' noData
       = Inr emptyVisualization"
  using C9_unsupported_format [of "''elk''" "sampleRuntime ''t''" "[networkArrayFile]" noData]
    C9_unsupported_format [of "''sysmon''" "sampleRuntime ''t''" "[networkArrayFile]" noData]
  by simp

subsection \<open>C10\<close>

text \<open>
  C10. \<^verbatim>\<open>parseLogs\<close> does not return a bundle on every input: a process-monitor
  file-creation event without \<^verbatim>\<open>TargetFilename\<close>, an endpoint-protection
  \<^verbatim>\<open>FileCreated\<close> event without \<^verbatim>\<open>FileName\<close> and \<^verbatim>\<open>FolderPath\<close>, and the document
  \<^verbatim>\<open>null\<close> given to the generic adapter each end the call with a \<^verbatim>\<open>TypeError\<close>.
\<close>

theorem C10_parseLogs_rejects:
  "sysmon_parseLogs (sampleRuntime now) [fileCreatedFile] ''sysmon'' before = Inl TypeError
   \<and> defender_parseLogs (sampleRuntime now) [defenderFileFile] ''defender'' before = Inl TypeError
   \<and> elk_parseLogs (sampleRuntime now) [nullFile] ''elk'' before = Inl TypeError"
  by code_simp

end
